theory Spec2Isabelle
  imports Complex_Main
begin

unbundle bit_operations_syntax

section \<open>Python values, exceptions and quantities\<close>

text \<open>
  Exceptions of the handlers. The string is the text \<^verbatim>\<open>str(e)\<close> gives; the
  first argument of \<open>OtherException\<close> is the class name of an exception raised
  by a collaborator that is not part of \<^verbatim>\<open>ScriptHandler.py\<close>.
\<close>

datatype exc =
    ScriptException string
  | ValueError string
  | KeyError string
  | OtherException string string

fun exc_str :: "exc \<Rightarrow> string" where
  "exc_str (ScriptException m) = m"
| "exc_str (ValueError m) = m"
| "exc_str (KeyError m) = m"
| "exc_str (OtherException c m) = m"

text \<open>
  Modelled from the spec: \<^verbatim>\<open>modules.quantity.Q\<close> is not under src/; the
  spec says that quantities carry a magnitude and a unit string.
\<close>

datatype quantity = Q real string

fun magnitude :: "quantity \<Rightarrow> real" where
  "magnitude (Q m u) = m"

fun units :: "quantity \<Rightarrow> string" where
  "units (Q m u) = u"

datatype pyval =
    PNone
  | PBool bool
  | PInt int
  | PFloat real
  | PStr string
  | PQuantity quantity
  | PExc exc
  | PList "pyval list"
  | PTuple "pyval list"
  | PDict "(string \<times> pyval) list"

section \<open>The Script entity and the state the handler reaches\<close>

datatype cv = GuiWait | PauseWait | ScanWait | DataWait | AnalysisWait | GenericWait | AllDataWait

text \<open>
  What the GUI thread does to the Script's mutex, condition variables and fields, in
  program order: \<open>Lock\<close> and \<open>Unlock\<close> are the entry and exit of a
  \<^verbatim>\<open>with QtCore.QMutexLocker(self.script.mutex)\<close> block, \<open>Write f\<close> an
  assignment to \<^verbatim>\<open>self.script.f\<close>, \<open>WakeAll c\<close> a call of
  \<^verbatim>\<open>self.script.c.wakeAll()\<close>.
\<close>

datatype event = Lock | Unlock | Write string | WakeAll cv

text \<open>Calls into GUI collaborators whose code is not under src/, recorded in order.\<close>

datatype uicall =
    SaveAndUpdateFileList
  | Replot string
  | AddTrace string int
  | Expand string
  | ResizeColumnsToContents

datatype level = ERROR | DEBUG | INFO

record plottedTrace =
  x :: "real list"
  y :: "real list"

text \<open>
  One record for everything a handler can read or write. The first block is
  \<^verbatim>\<open>self.script.*\<close>, the second the handler's own dictionaries, the third
  the widgets of \<^verbatim>\<open>experimentUi\<close>. \<open>blocked c\<close> is the set of threads
  waiting on condition variable \<open>c\<close>.
\<close>

record world =
  stopped :: bool
  paused :: bool
  waitOnScan :: bool
  repeat :: bool
  slow :: bool
  scanIsRunning :: bool
  analysisReady :: bool
  dataReady :: bool
  allDataReady :: bool
  scanStatus :: string
  data :: pyval
  allData :: pyval
  analysisResults :: pyval
  genericResult :: pyval
  exception :: "exc option"
  isRunning :: bool
  events :: "event list"
  blocked :: "cv \<Rightarrow> nat set"
  globalVariablesRevertDict :: "string \<rightharpoonup> quantity"
  scriptTraces :: "string \<rightharpoonup> plottedTrace"
  traceAlreadyCreated :: "string \<rightharpoonup> bool"
  namedTraceList :: "string set"
  globalDict :: "string \<rightharpoonup> quantity"
  shutter :: int
  scanComboBox :: "string list"
  scanSettingsName :: string
  evaluationComboBox :: "string list"
  evaluationSettingsName :: string
  analysisDefinitionDict :: "string \<rightharpoonup> pyval"
  currentAnalysisName :: string
  expandNew :: bool
  uicalls :: "uicall list"
  console :: "(string \<times> bool \<times> string) list"
  logged :: "(level \<times> string) list"

text \<open>The result of a handler body: it raises, or returns \<^verbatim>\<open>(error, message)\<close>.\<close>

type_synonym outcome = "exc + (bool \<times> string option)"

section \<open>Mutex, condition variables, console\<close>

definition lock :: "world \<Rightarrow> world" where
  "lock s = s\<lparr>events := events s @ [Lock]\<rparr>"

definition unlock :: "world \<Rightarrow> world" where
  "unlock s = s\<lparr>events := events s @ [Unlock]\<rparr>"

text \<open>
  \<^verbatim>\<open>QWaitCondition.wakeAll\<close> (Qt): every thread waiting on the condition
  variable is released.
\<close>

definition wakeAll :: "cv \<Rightarrow> world \<Rightarrow> world" where
  "wakeAll c s = s\<lparr>events := events s @ [WakeAll c], blocked := (blocked s)(c := {})\<rparr>"

definition assign :: "string \<Rightarrow> (world \<Rightarrow> world) \<Rightarrow> world \<Rightarrow> world" where
  "assign f upd s = (upd s)\<lparr>events := events s @ [Write f]\<rparr>"

definition seq :: "(world \<Rightarrow> world) list \<Rightarrow> world \<Rightarrow> world" where
  "seq fs s = fold (\<lambda>f t. f t) fs s"

text \<open>
  \<open>guarded h es\<close>: starting with the mutex held (\<open>h\<close>) or not, every write
  and every wake of the trace happens while the mutex is held.
\<close>

fun guarded :: "bool \<Rightarrow> event list \<Rightarrow> bool" where
  "guarded h [] = True"
| "guarded h (Lock # es) = guarded True es"
| "guarded h (Unlock # es) = guarded False es"
| "guarded h (Write f # es) = (h \<and> guarded h es)"
| "guarded h (WakeAll c # es) = (h \<and> guarded h es)"

definition writeToConsole :: "string \<Rightarrow> bool \<Rightarrow> string \<Rightarrow> world \<Rightarrow> world" where
  "writeToConsole message error color s = s\<lparr>console := console s @ [(message, error, color)]\<rparr>"

definition logger :: "level \<Rightarrow> string \<Rightarrow> world \<Rightarrow> world" where
  "logger l message s = s\<lparr>logged := logged s @ [(l, message)]\<rparr>"

section \<open>Shutters\<close>

text \<open>
  \<^verbatim>\<open>onSetShutter\<close> before decoration. Python's \<^verbatim>\<open>1 << index\<close> raises
  ValueError for a negative index; the integers are unbounded. The first argument is
  Python's \<^verbatim>\<open>str.format\<close> of a value.
\<close>

definition onSetShutter :: "(pyval \<Rightarrow> string) \<Rightarrow> int \<Rightarrow> bool \<Rightarrow> world \<Rightarrow> outcome \<times> world" where
  "onSetShutter pystr index val s =
     (if index < 0 then (Inl (ValueError ''negative shift count''), s)
      else
        let mask = push_bit (nat index) (1::int);
            sh = (shutter s AND NOT mask) OR (push_bit (nat index) (of_bool val) AND mask)
        in (Inr (False, Some (''Set shutter '' @ pystr (PInt index) @ '' to '' @ pystr (PBool val))),
            s\<lparr>shutter := sh\<rparr>))"

definition getShutter :: "int \<Rightarrow> world \<Rightarrow> exc + bool" where
  "getShutter index s =
     (if index < 0 then Inl (ValueError ''negative shift count'')
      else Inr (drop_bit (nat index) (shutter s) AND 1 \<noteq> 0))"

section \<open>The decorator for script commands\<close>

text \<open>Python's truth value of a message that is a string or None.\<close>

fun truthy :: "string option \<Rightarrow> bool" where
  "truthy None = False"
| "truthy (Some m) = (m \<noteq> [])"

fun msg_text :: "string option \<Rightarrow> string" where
  "msg_text None = []"
| "msg_text (Some m) = m"

text \<open>
  The \<^verbatim>\<open>try\<close> block of \<^verbatim>\<open>baseScriptCommand\<close>: the exception that
  reaches the \<^verbatim>\<open>except\<close> clause, if any, and the state then.
\<close>

definition tryBlock :: "(world \<Rightarrow> outcome \<times> world) \<Rightarrow> world \<Rightarrow> exc option \<times> world" where
  "tryBlock func s =
     (case func s of
        (Inl e, s1) \<Rightarrow> (Some e, s1)
      | (Inr (error, message), s1) \<Rightarrow>
          if error \<and> truthy message then
            (Some (ScriptException (msg_text message)),
             writeToConsole (msg_text message) True [] (logger ERROR (msg_text message) s1))
          else if error \<and> \<not> truthy message then (Some (ScriptException []), s1)
          else if \<not> error \<and> truthy message then
            (None, writeToConsole (msg_text message) False [] (logger DEBUG (msg_text message) s1))
          else (None, s1))"

text \<open>
  \<^verbatim>\<open>traceback.print_exc()\<close> returns None, which is what the logger is given.
\<close>

definition scriptCommand :: "(world \<Rightarrow> outcome \<times> world) \<Rightarrow> world \<Rightarrow> world" where
  "scriptCommand func s =
     (case tryBlock func s of
        (None, s2) \<Rightarrow> wakeAll GuiWait s2
      | (Some e, s2) \<Rightarrow>
          wakeAll GuiWait
            (seq [lock, assign ''exception'' (\<lambda>t. t\<lparr>exception := Some e\<rparr>),
                  logger ERROR ''None'', unlock] s2))"

section \<open>Globals, scans, evaluations, analyses\<close>

text \<open>
  Modelled from the spec: \<^verbatim>\<open>globalVariablesUi.model.update\<close> is not under
  src/; a global is an experiment-wide named quantity, and setting it stores the
  quantity under its name.
\<close>

definition model_update :: "string \<Rightarrow> quantity \<Rightarrow> world \<Rightarrow> world" where
  "model_update name magValue s = s\<lparr>globalDict := (globalDict s)(name \<mapsto> magValue)\<rparr>"

text \<open>
  \<^verbatim>\<open>onSetGlobal\<close> before decoration; \<^verbatim>\<open>globalVariablesUi.keys()\<close> are
  the keys of \<^verbatim>\<open>globalDict\<close>, and \<^verbatim>\<open>deepcopy\<close> is the value itself.
\<close>

definition onSetGlobal :: "(pyval \<Rightarrow> string) \<Rightarrow> string \<Rightarrow> real \<Rightarrow> string \<Rightarrow> world \<Rightarrow> outcome \<times> world" where
  "onSetGlobal pystr name val unit s =
     (let magValue = Q val unit in
      case globalDict s name of
        None \<Rightarrow> (Inr (True, Some (''Global variable '' @ name @ '' does not exist.'')), s)
      | Some old \<Rightarrow>
          let s1 = (if globalVariablesRevertDict s name = None
                    then s\<lparr>globalVariablesRevertDict := (globalVariablesRevertDict s)(name \<mapsto> old)\<rparr>
                    else s);
              s2 = model_update name magValue s1
          in (Inr (False, Some (''Global variable '' @ name @ '' set to '' @ pystr (PFloat val)
                                @ '' '' @ unit)), s2))"

text \<open>
  \<^verbatim>\<open>QComboBox.findText\<close> (Qt): the index of the first item with the text,
  or -1.
\<close>

fun findText :: "string list \<Rightarrow> string \<Rightarrow> int" where
  "findText [] name = - 1"
| "findText (item # items) name =
     (if item = name then 0
      else let r = findText items name in if r = - 1 then - 1 else r + 1)"

text \<open>
  Modelled from the spec: \<^verbatim>\<open>loadSetting\<close> of the scan and evaluation widgets
  and \<^verbatim>\<open>onLoadAnalysisConfiguration\<close> are not under src/; setting a scan,
  evaluation or analysis makes the named one the active one.
\<close>

definition scan_loadSetting :: "string \<Rightarrow> world \<Rightarrow> world" where
  "scan_loadSetting name s = s\<lparr>scanSettingsName := name\<rparr>"

definition evaluation_loadSetting :: "string \<Rightarrow> world \<Rightarrow> world" where
  "evaluation_loadSetting name s = s\<lparr>evaluationSettingsName := name\<rparr>"

definition onLoadAnalysisConfiguration :: "string \<Rightarrow> world \<Rightarrow> world" where
  "onLoadAnalysisConfiguration name s = s\<lparr>currentAnalysisName := name\<rparr>"

definition onSetScan :: "string \<Rightarrow> world \<Rightarrow> outcome \<times> world" where
  "onSetScan name s =
     (let doesNotExist = (findText (scanComboBox s) name = - 1) in
      if doesNotExist then (Inr (True, Some (''Scan '' @ name @ '' does not exist.'')), s)
      else (Inr (False, Some (''Scan set to '' @ name)), scan_loadSetting name s))"

definition onSetEvaluation :: "string \<Rightarrow> world \<Rightarrow> outcome \<times> world" where
  "onSetEvaluation name s =
     (let doesNotExist = (findText (evaluationComboBox s) name = - 1) in
      if doesNotExist then (Inr (True, Some (''Evaluation '' @ name @ '' does not exist.'')), s)
      else (Inr (False, Some (''Evaluation set to '' @ name)), evaluation_loadSetting name s))"

definition onSetAnalysis :: "string \<Rightarrow> world \<Rightarrow> outcome \<times> world" where
  "onSetAnalysis name s =
     (let doesNotExist = (analysisDefinitionDict s name = None) in
      if doesNotExist then (Inr (True, Some (''Analysis '' @ name @ '' does not exist.'')), s)
      else (Inr (False, Some (''Analysis set to '' @ name)), onLoadAnalysisConfiguration name s))"

text \<open>A script's successive \<^verbatim>\<open>setGlobal\<close> requests, each through the decorator.\<close>

definition setGlobals :: "(pyval \<Rightarrow> string) \<Rightarrow> (string \<times> real \<times> string) list \<Rightarrow> world \<Rightarrow> world" where
  "setGlobals pystr calls s =
     fold (\<lambda>(name, val, unit) t. scriptCommand (onSetGlobal pystr name val unit) t) calls s"

section \<open>Starting, pausing and stopping the script\<close>

text \<open>\<^verbatim>\<open>QThread.start\<close> (Qt): the script thread runs from then on.\<close>

definition onStartScript :: "world \<Rightarrow> world" where
  "onStartScript s =
     (if \<not> isRunning s then
        seq [\<lambda>t. t\<lparr>globalVariablesRevertDict := Map.empty\<rparr>,
             lock,
             assign ''paused'' (\<lambda>t. t\<lparr>paused := False\<rparr>),
             assign ''stopped'' (\<lambda>t. t\<lparr>stopped := False\<rparr>),
             assign ''exception'' (\<lambda>t. t\<lparr>exception := None\<rparr>),
             \<lambda>t. t\<lparr>isRunning := True\<rparr>,
             \<lambda>t. t\<lparr>namedTraceList := {}\<rparr>,
             unlock] s
      else s)"

definition onPauseScript :: "bool \<Rightarrow> world \<Rightarrow> world" where
  "onPauseScript p s =
     seq [lock,
          assign ''paused'' (\<lambda>t. t\<lparr>paused := p\<rparr>),
          \<lambda>t. if \<not> p then wakeAll PauseWait t else t,
          unlock] s"

definition onStopScript :: "world \<Rightarrow> world" where
  "onStopScript s =
     seq [lock,
          assign ''stopped'' (\<lambda>t. t\<lparr>stopped := True\<rparr>),
          assign ''paused'' (\<lambda>t. t\<lparr>paused := False\<rparr>),
          assign ''waitOnScan'' (\<lambda>t. t\<lparr>waitOnScan := False\<rparr>),
          assign ''repeat'' (\<lambda>t. t\<lparr>repeat := False\<rparr>),
          assign ''analysisReady'' (\<lambda>t. t\<lparr>analysisReady := True\<rparr>),
          assign ''dataReady'' (\<lambda>t. t\<lparr>dataReady := True\<rparr>),
          assign ''allDataReady'' (\<lambda>t. t\<lparr>allDataReady := True\<rparr>),
          wakeAll GuiWait,
          wakeAll PauseWait,
          wakeAll ScanWait,
          wakeAll DataWait,
          wakeAll AnalysisWait,
          wakeAll GenericWait,
          \<lambda>t. t\<lparr>uicalls := uicalls t @ [SaveAndUpdateFileList]\<rparr>,
          unlock] s"

definition onStopScriptFromScript :: "world \<Rightarrow> outcome \<times> world" where
  "onStopScriptFromScript s = (Inr (False, Some ''script stopped''), onStopScript s)"

section \<open>Results coming from the experiment\<close>

definition onAnalysisResult :: "pyval \<Rightarrow> world \<Rightarrow> world" where
  "onAnalysisResult allResults s =
     seq [lock,
          assign ''analysisResults'' (\<lambda>t. t\<lparr>analysisResults := allResults\<rparr>),
          assign ''analysisReady'' (\<lambda>t. t\<lparr>analysisReady := True\<rparr>),
          wakeAll AnalysisWait,
          unlock] s"

definition onData :: "pyval \<Rightarrow> world \<Rightarrow> world" where
  "onData d s =
     seq [lock,
          assign ''data'' (\<lambda>t. t\<lparr>data := d\<rparr>),
          assign ''dataReady'' (\<lambda>t. t\<lparr>dataReady := True\<rparr>),
          wakeAll DataWait,
          unlock] s"

definition onAllData :: "pyval \<Rightarrow> world \<Rightarrow> world" where
  "onAllData d s =
     seq [lock,
          assign ''allData'' (\<lambda>t. t\<lparr>allData := d\<rparr>),
          assign ''allDataReady'' (\<lambda>t. t\<lparr>allDataReady := True\<rparr>),
          wakeAll AllDataWait,
          unlock] s"

section \<open>Generic calls\<close>

text \<open>
  \<^verbatim>\<open>getGlobal\<close>: for an unknown name the exception object is returned, not
  raised.
\<close>

definition getGlobal :: "string \<Rightarrow> world \<Rightarrow> pyval" where
  "getGlobal name s =
     (case globalDict s name of
        Some q \<Rightarrow> PQuantity q
      | None \<Rightarrow> PExc (ScriptException (''Global '' @ [CHR 0x27] @ name @ [CHR 0x27] @ '' does not exist!'')))"

text \<open>
  \<^verbatim>\<open>getattr(self, funcname)(*args, **kwargs)\<close>. The two getters of the class
  are written out for the call shape the script uses (one positional argument); what any
  other attribute or call shape does is the parameter \<open>rest\<close>.
\<close>

type_synonym attr_call =
  "string \<Rightarrow> pyval list \<Rightarrow> (string \<times> pyval) list \<Rightarrow> world \<Rightarrow> (exc + pyval) \<times> world"

definition getattr_call :: "attr_call \<Rightarrow> attr_call" where
  "getattr_call rest funcname args kwargs s =
     (case (args, kwargs) of
        ([PStr name], []) \<Rightarrow>
          if funcname = ''getGlobal'' then (Inr (getGlobal name s), s)
          else rest funcname args kwargs s
      | ([PInt index], []) \<Rightarrow>
          if funcname = ''getShutter'' then (map_sum id PBool (getShutter index s), s)
          else rest funcname args kwargs s
      | _ \<Rightarrow> rest funcname args kwargs s)"

text \<open>
  \<^verbatim>\<open>onGenericCall\<close> before decoration. The mutex is released when the
  \<^verbatim>\<open>with\<close> block is left, by an exception too; \<^verbatim>\<open>genericWait\<close> is woken
  after the block, and only when nothing was raised.
\<close>

definition onGenericCall ::
  "attr_call \<Rightarrow> (pyval \<Rightarrow> string) \<Rightarrow> string \<Rightarrow> pyval list \<Rightarrow> (string \<times> pyval) list \<Rightarrow> world \<Rightarrow> outcome \<times> world" where
  "onGenericCall rest pystr funcname args kwargs s =
     (case getattr_call rest funcname args kwargs (lock s) of
        (Inl e, s1) \<Rightarrow> (Inr (True, Some (exc_str e)), unlock s1)
      | (Inr v, s1) \<Rightarrow>
          (Inr (False, Some (funcname @ pystr (PTuple args) @ '' executed'')),
           wakeAll GenericWait (unlock (assign ''genericResult'' (\<lambda>t. t\<lparr>genericResult := v\<rparr>) s1))))"

section \<open>Plotting to a trace\<close>

definition plotList ::
  "(pyval \<Rightarrow> string) \<Rightarrow> real list \<Rightarrow> real list \<Rightarrow> string \<Rightarrow> bool \<Rightarrow> int \<Rightarrow> world \<Rightarrow> (bool \<times> string) \<times> world" where
  "plotList pystr xList yList traceName overwrite plotStyle s =
     (case (scriptTraces s traceName, traceAlreadyCreated s traceName) of
        (Some plotted, Some created) \<Rightarrow>
          if \<not> (length xList = length yList) then
            ((True, ''x and y lists are of unequal lengths''), s)
          else
            let s1 =
              (if created then
                 let tr = (if \<not> overwrite
                           then plotted\<lparr>x := x plotted @ xList, y := y plotted @ yList\<rparr>
                           else plotted\<lparr>x := xList, y := yList\<rparr>)
                 in s\<lparr>scriptTraces := (scriptTraces s)(traceName \<mapsto> tr),
                      uicalls := uicalls s @ [Replot traceName]\<rparr>
               else
                 s\<lparr>scriptTraces := (scriptTraces s)(traceName \<mapsto> plotted\<lparr>x := xList, y := yList\<rparr>),
                   uicalls := uicalls s @ [AddTrace traceName plotStyle]
                                @ (if expandNew s then [Expand traceName] else [])
                                @ [ResizeColumnsToContents],
                   traceAlreadyCreated := (traceAlreadyCreated s)(traceName \<mapsto> True)\<rparr>)
            in ((False, pystr (PList (map PFloat xList)) @ '', '' @ pystr (PList (map PFloat yList))
                        @ '' plotted to trace: '' @ traceName), s1)
      | _ \<Rightarrow> ((True, ''Trace '' @ traceName @ '' does not exist''), s))"

definition onPlotPoint :: "(pyval \<Rightarrow> string) \<Rightarrow> real \<Rightarrow> real \<Rightarrow> string \<Rightarrow> int \<Rightarrow> world \<Rightarrow> outcome \<times> world" where
  "onPlotPoint pystr px py traceName plotStyle s =
     (case plotList pystr [px] [py] traceName False plotStyle s of
        ((error, message), s1) \<Rightarrow> (Inr (error, Some message), s1))"

definition onPlotList ::
  "(pyval \<Rightarrow> string) \<Rightarrow> real list \<Rightarrow> real list \<Rightarrow> string \<Rightarrow> bool \<Rightarrow> int \<Rightarrow> world \<Rightarrow> outcome \<times> world" where
  "onPlotList pystr xList yList traceName overwrite plotStyle s =
     (case plotList pystr xList yList traceName overwrite plotStyle s of
        ((error, message), s1) \<Rightarrow> (Inr (error, Some message), s1))"

section \<open>A concrete state\<close>

text \<open>
  The handler right after \<^verbatim>\<open>__init__\<close>, with a script that is not running,
  no global, scan, evaluation or analysis registered, all shutters closed and no thread
  waiting.
\<close>

definition world0 :: world where
  "world0 = \<lparr>stopped = False, paused = False, waitOnScan = False, repeat = False, slow = False,
     scanIsRunning = False, analysisReady = False, dataReady = False, allDataReady = False,
     scanStatus = [], data = PNone, allData = PNone, analysisResults = PNone,
     genericResult = PNone, exception = None, isRunning = False, events = [],
     blocked = (\<lambda>c. {}), globalVariablesRevertDict = Map.empty, scriptTraces = Map.empty,
     traceAlreadyCreated = Map.empty, namedTraceList = {}, globalDict = Map.empty, shutter = 0,
     scanComboBox = [], scanSettingsName = [], evaluationComboBox = [],
     evaluationSettingsName = [], analysisDefinitionDict = Map.empty, currentAnalysisName = [],
     expandNew = False, uicalls = [], console = [], logged = []\<rparr>"

text \<open>
  What the set-commands of the script work on: the globals and their revert snapshots,
  and the registered and the active scan, evaluation and analysis.
\<close>

definition settings :: "world \<Rightarrow>
    (string \<rightharpoonup> quantity) \<times> (string \<rightharpoonup> quantity) \<times> (string list \<times> string)
    \<times> (string list \<times> string) \<times> ((string \<rightharpoonup> pyval) \<times> string)" where
  "settings s =
     (globalDict s, globalVariablesRevertDict s, (scanComboBox s, scanSettingsName s),
      (evaluationComboBox s, evaluationSettingsName s),
      (analysisDefinitionDict s, currentAnalysisName s))"

section \<open>The consumer of a result slot\<close>

datatype slot = DataSlot | AllDataSlot | AnalysisSlot | GenericSlot

fun slot_wait :: "slot \<Rightarrow> cv" where
  "slot_wait DataSlot = DataWait"
| "slot_wait AllDataSlot = AllDataWait"
| "slot_wait AnalysisSlot = AnalysisWait"
| "slot_wait GenericSlot = GenericWait"

fun slot_value :: "slot \<Rightarrow> world \<Rightarrow> pyval" where
  "slot_value DataSlot s = data s"
| "slot_value AllDataSlot s = allData s"
| "slot_value AnalysisSlot s = analysisResults s"
| "slot_value GenericSlot s = genericResult s"

text \<open>The generic result has no ready flag.\<close>

fun slot_clear :: "slot \<Rightarrow> world \<Rightarrow> world" where
  "slot_clear DataSlot s = s\<lparr>dataReady := False\<rparr>"
| "slot_clear AllDataSlot s = s\<lparr>allDataReady := False\<rparr>"
| "slot_clear AnalysisSlot s = s\<lparr>analysisReady := False\<rparr>"
| "slot_clear GenericSlot s = s"

text \<open>
  Modelled from the spec: the consumer (\<^verbatim>\<open>Script.py\<close>) is not under src/. The
  spec's state machine of a result slot: the script thread issues its request and waits
  on the slot's condition variable; once the producer has woken it, it drains the value
  and clears the ready flag. A thread that is still waiting has read nothing.
\<close>

definition consumer_drain :: "nat \<Rightarrow> slot \<Rightarrow> world \<Rightarrow> (pyval \<times> world) option" where
  "consumer_drain t sl s =
     (if t \<in> blocked s (slot_wait sl) then None
      else Some (slot_value sl s, slot_clear sl s))"

section \<open>Instrument adapters\<close>

text \<open>
  The adapters of \<^verbatim>\<open>StandardExternalParameter.py\<close>. A vendor call is recorded with
  the name of the vendor function (or attribute) and the arguments it is given;
  \<open>VNum\<close> is a number handed on as \<^verbatim>\<open>m_as\<close> returned it, \<open>VInt\<close>,
  \<open>VFloat\<close> and \<open>VBool\<close> one that went through \<^verbatim>\<open>int\<close>, \<^verbatim>\<open>float\<close> or
  \<^verbatim>\<open>bool\<close>, \<open>VSym\<close> a constant of the vendor's module (\<^verbatim>\<open>CHANNEL_N1\<close>),
  \<open>VCfg\<close> the instrument's section of the configuration dictionary. The conversion
  \<^verbatim>\<open>v.m_as(unit)\<close> is a parameter of every \<^verbatim>\<open>setValue\<close>: it returns a number
  or raises. The number is a Python float, which may be infinite or not a number. The
  KeyError of a channel missing from a lookup table has the quoted channel name as its
  text.
\<close>

datatype pyfloat = Finite real | PosInf | NegInf | NaN

datatype vendor_arg =
    VNum pyfloat
  | VInt int
  | VFloat pyfloat
  | VBool bool
  | VStr string
  | VSym string
  | VCfg "(string \<times> string option) list"

type_synonym vendor_call = "string \<times> vendor_arg list"

type_synonym conversion = "quantity \<Rightarrow> string \<Rightarrow> exc + pyfloat"

definition missing_key :: "string \<Rightarrow> exc" where
  "missing_key k = KeyError ([CHR 0x27] @ k @ [CHR 0x27])"

text \<open>
  Python's \<^verbatim>\<open>int\<close> of a float truncates towards zero, and raises OverflowError
  for an infinity and ValueError for a NaN. Python's \<^verbatim>\<open>bool\<close> of a float is False
  for zero alone.
\<close>

fun py_int :: "pyfloat \<Rightarrow> exc + int" where
  "py_int (Finite r) = Inr (if 0 \<le> r then \<lfloor>r\<rfloor> else \<lceil>r\<rceil>)"
| "py_int PosInf = Inl (OtherException ''OverflowError'' ''cannot convert float infinity to integer'')"
| "py_int NegInf = Inl (OtherException ''OverflowError'' ''cannot convert float infinity to integer'')"
| "py_int NaN = Inl (ValueError ''cannot convert float NaN to integer'')"

fun py_bool :: "pyfloat \<Rightarrow> bool" where
  "py_bool (Finite r) = (r \<noteq> 0)"
| "py_bool PosInf = True"
| "py_bool NegInf = True"
| "py_bool NaN = True"

subsection \<open>SRS DS345 function generator\<close>

definition DS345_outputChannels :: "(string \<times> string) list" where
  "DS345_outputChannels =
     [(''Frequency'', ''kHz''), (''Amplitude(Vpp)'', ''V''), (''Offset'', ''V''), (''Function'', [])]"

definition DS345_outputLookup :: "string \<rightharpoonup> string \<times> string" where
  "DS345_outputLookup =
     map_of [(''Frequency'', (''frequency'', ''Hz'')),
             (''Amplitude(Vpp)'', (''amplitude'', ''V'')),
             (''Offset'', (''offset'', ''V'')),
             (''Function'', (''function'', []))]"

definition DS345_setValue ::
  "conversion \<Rightarrow> string \<Rightarrow> quantity \<Rightarrow> vendor_call list \<Rightarrow> (exc + quantity) \<times> vendor_call list" where
  "DS345_setValue m_as channel v calls =
     (case DS345_outputLookup channel of
        None \<Rightarrow> (Inl (missing_key channel), calls)
      | Some (func_name, unit) \<Rightarrow>
          (case m_as v unit of
             Inl e \<Rightarrow> (Inl e, calls)
           | Inr m \<Rightarrow> (Inr v, calls @ [(func_name, [VNum m])])))"

subsection \<open>Laser frequency PID lock\<close>

definition LaserFreqPID_outputChannels :: "(string \<times> string) list" where
  "LaserFreqPID_outputChannels = [(''FrequencySetpoint'', ''THz''), (''EnableLock'', [])]"

text \<open>
  The first two components of \<^verbatim>\<open>_outputLookup\<close>, and its fourth, the function that
  encodes the number for the server: \<^verbatim>\<open>str([x])\<close> and \<^verbatim>\<open>str(bool(v))\<close>.
  Python's \<^verbatim>\<open>str\<close> of a list of floats is the parameter \<open>str_list\<close>.
\<close>

definition LaserFreqPID_outputLookup :: "string \<rightharpoonup> string \<times> string" where
  "LaserFreqPID_outputLookup =
     map_of [(''FrequencySetpoint'', (''freq_setpoint'', ''THz'')),
             (''EnableLock'', (''enable_lock'', []))]"

definition LaserFreqPID_set_func :: "(pyfloat list \<Rightarrow> string) \<Rightarrow> string \<Rightarrow> pyfloat \<Rightarrow> string" where
  "LaserFreqPID_set_func str_list channel m =
     (if channel = ''FrequencySetpoint'' then str_list [m]
      else if py_bool m then ''True'' else ''False'')"

definition cfg_section :: "(string \<rightharpoonup> string) \<Rightarrow> vendor_arg" where
  "cfg_section cfg = VCfg [(''freq_setpoint'', cfg ''freq_setpoint''), (''enable_lock'', cfg ''enable_lock'')]"

text \<open>
  \<open>cfg\<close> is \<^verbatim>\<open>self.client_config[self.instrument]\<close> (a missing key stands for the
  value None). \<^verbatim>\<open>self.getValue(channel)\<close>, called for the \<^verbatim>\<open>newData\<close> signal,
  asks the server for its configuration and evaluates the reply: its result and the
  configuration it leaves are the parameter \<open>getValue\<close>.
\<close>

definition LaserFreqPID_setValue ::
  "conversion \<Rightarrow> (pyfloat list \<Rightarrow> string) \<Rightarrow> ((string \<rightharpoonup> string) \<Rightarrow> (exc + quantity) \<times> (string \<rightharpoonup> string))
   \<Rightarrow> string \<Rightarrow> quantity \<Rightarrow> (string \<rightharpoonup> string) \<times> vendor_call list
   \<Rightarrow> (exc + quantity) \<times> (string \<rightharpoonup> string) \<times> vendor_call list" where
  "LaserFreqPID_setValue m_as str_list getValue channel v st =
     (case st of (cfg, calls) \<Rightarrow>
        (case LaserFreqPID_outputLookup channel of
           None \<Rightarrow> (Inl (missing_key channel), cfg, calls)
         | Some (config_name, unit) \<Rightarrow>
             (case m_as v unit of
                Inl e \<Rightarrow> (Inl e, cfg, calls)
              | Inr m \<Rightarrow>
                  let cfg1 = cfg(config_name \<mapsto> LaserFreqPID_set_func str_list channel m);
                      calls1 = calls @ [(''update_config'', [cfg_section cfg1]), (''set_config'', []),
                                        (''get_config'', [])]
                  in (case getValue cfg1 of
                        (Inl e, cfg2) \<Rightarrow> (Inl e, cfg2, calls1)
                      | (Inr q, cfg2) \<Rightarrow> (Inr v, cfg2, calls1)))))"

subsection \<open>Four rod DC voltage control\<close>

definition DCVoltageControl_outputChannels :: "(string \<times> string) list" where
  "DCVoltageControl_outputChannels =
     [(''Enable Remote Control'', []), (''Needle_1_Voltage'', ''V''), (''Needle_2_Voltage'', ''V''),
      (''Rod_1_Voltage'', ''V''), (''Rod_2_Voltage'', ''V''), (''Rod_3_Voltage'', ''V''),
      (''Rod_4_Voltage'', ''V'')]"

definition DCVoltageControl_outputLookup :: "string \<rightharpoonup> string" where
  "DCVoltageControl_outputLookup =
     map_of [(''Needle_1_Voltage'', ''CHANNEL_N1''), (''Needle_2_Voltage'', ''CHANNEL_N2''),
             (''Rod_1_Voltage'', ''CHANNEL_R1''), (''Rod_2_Voltage'', ''CHANNEL_R2''),
             (''Rod_3_Voltage'', ''CHANNEL_R3''), (''Rod_4_Voltage'', ''CHANNEL_R4'')]"

definition DCVoltageControl_setValue ::
  "conversion \<Rightarrow> string \<Rightarrow> quantity \<Rightarrow> vendor_call list \<Rightarrow> (exc + quantity) \<times> vendor_call list" where
  "DCVoltageControl_setValue m_as channel v calls =
     (if channel = ''Enable Remote Control'' then
        (case m_as v [] of
           Inl e \<Rightarrow> (Inl e, calls)
         | Inr m \<Rightarrow>
             (case py_int m of
                Inl e \<Rightarrow> (Inl e, calls)
              | Inr v_value \<Rightarrow>
                  if v_value \<notin> {0, 1, 255}
                  then (Inl (ValueError ''Not an available mode!!!!!''), calls)
                  else (Inr v, calls @ [(''set_mode_all'', [VInt v_value])])))
      else
        (case m_as v ''V'' of
           Inl e \<Rightarrow> (Inl e, calls)
         | Inr m \<Rightarrow>
             (case DCVoltageControl_outputLookup channel of
                None \<Rightarrow> (Inl (missing_key channel), calls)
              | Some v_channel \<Rightarrow> (Inr v, calls @ [(''set_volt'', [VSym v_channel, VFloat m])]))))"

subsection \<open>Four rod oven control\<close>

definition FourRodOvenControl_outputChannels :: "(string \<times> string) list" where
  "FourRodOvenControl_outputChannels =
     [(''Oven current set'', ''A''), (''Oven voltage set'', ''V''),
      (''Oven current reading (read only)'', ''A''), (''Oven voltage reading (read only)'', ''V''),
      (''Oven status (0=CV, 1=CC)'', [])]"

text \<open>Two \<^verbatim>\<open>if\<close> statements in a row, then \<^verbatim>\<open>return v\<close>.\<close>

definition FourRodOvenControl_setValue ::
  "conversion \<Rightarrow> string \<Rightarrow> quantity \<Rightarrow> vendor_call list \<Rightarrow> (exc + quantity) \<times> vendor_call list" where
  "FourRodOvenControl_setValue m_as channel v calls =
     (case (if channel = ''Oven current set'' then
              (case m_as v ''A'' of
                 Inl e \<Rightarrow> Inl e
               | Inr m \<Rightarrow> Inr (calls @ [(''set_current'', [VFloat m])]))
            else Inr calls) of
        Inl e \<Rightarrow> (Inl e, calls)
      | Inr calls1 \<Rightarrow>
          (if channel = ''Oven voltage set'' then
             (case m_as v ''V'' of
                Inl e \<Rightarrow> (Inl e, calls1)
              | Inr m \<Rightarrow> (Inr v, calls1 @ [(''set_voltage'', [VFloat m])]))
           else (Inr v, calls1)))"

subsection \<open>RF controller\<close>

definition RFController_outputChannels :: "(string \<times> string) list" where
  "RFController_outputChannels =
     [(''frequency_cooling_eom'', ''MHz''), (''frequency_detection_aom'', ''MHz''),
      (''frequency_repump_eom'', ''MHz''), (''frequency_cooling_aom'', ''MHz''),
      (''frequency_optpump_eom'', ''MHz''), (''frequency_microwave_modulation'', ''MHz''),
      (''frequency_dmd_aom'', ''MHz''),
      (''power_cooling_eom'', []), (''power_detection_aom'', []), (''power_repump_eom'', []),
      (''power_cooling_aom'', []), (''power_optpump_eom'', []),
      (''power_microwave_modulation'', []), (''power_dmd_aom'', []),
      (''output_state_cooling_eom'', []), (''output_state_microwave_modulation'', [])]"

definition RFController_outputLookup :: "string \<rightharpoonup> string \<times> string" where
  "RFController_outputLookup =
     map_of [(''frequency_cooling_eom'', (''four_rod_cooling_eom'', ''frequency'')),
             (''frequency_detection_aom'', (''four_rod_detection_aom'', ''frequency'')),
             (''frequency_repump_eom'', (''four_rod_repump_eom'', ''frequency'')),
             (''frequency_cooling_aom'', (''four_rod_cooling_aom'', ''frequency'')),
             (''frequency_optpump_eom'', (''four_rod_optpump_eom'', ''frequency'')),
             (''frequency_microwave_modulation'', (''four_rod_microwave_modulation'', ''frequency'')),
             (''frequency_dmd_aom'', (''four_rod_dmd_aom'', ''frequency'')),
             (''power_cooling_eom'', (''four_rod_cooling_eom'', ''power'')),
             (''power_detection_aom'', (''four_rod_detection_aom'', ''power'')),
             (''power_repump_eom'', (''four_rod_repump_eom'', ''power'')),
             (''power_cooling_aom'', (''four_rod_cooling_aom'', ''power'')),
             (''power_optpump_eom'', (''four_rod_optpump_eom'', ''power'')),
             (''power_microwave_modulation'', (''four_rod_microwave_modulation'', ''power'')),
             (''power_dmd_aom'', (''four_rod_dmd_aom'', ''power'')),
             (''output_state_cooling_eom'', (''four_rod_cooling_eom'', ''output_state'')),
             (''output_state_microwave_modulation'', (''four_rod_microwave_modulation'', ''output_state''))]"

definition RFController_unitLookup :: "string \<rightharpoonup> string" where
  "RFController_unitLookup = map_of [(''frequency'', ''Hz''), (''power'', []), (''output_state'', [])]"

text \<open>
  \<^verbatim>\<open>_setTypeLookup\<close>: \<^verbatim>\<open>int\<close>, \<^verbatim>\<open>float\<close> and \<^verbatim>\<open>bool\<close> applied to the
  number; \<^verbatim>\<open>int\<close> may raise.
\<close>

definition RFController_setTypeLookup :: "string \<rightharpoonup> (pyfloat \<Rightarrow> exc + vendor_arg)" where
  "RFController_setTypeLookup =
     map_of [(''frequency'', \<lambda>m. map_sum id VInt (py_int m)), (''power'', \<lambda>m. Inr (VFloat m)),
             (''output_state'', \<lambda>m. Inr (VBool (py_bool m)))]"

definition RFController_setValue ::
  "conversion \<Rightarrow> string \<Rightarrow> quantity \<Rightarrow> vendor_call list \<Rightarrow> (exc + quantity) \<times> vendor_call list" where
  "RFController_setValue m_as channel v calls =
     (case RFController_outputLookup channel of
        None \<Rightarrow> (Inl (missing_key channel), calls)
      | Some (rf_channel, parameter_name) \<Rightarrow>
          (case RFController_unitLookup parameter_name of
             None \<Rightarrow> (Inl (missing_key parameter_name), calls)
           | Some unit \<Rightarrow>
               (case m_as v unit of
                  Inl e \<Rightarrow> (Inl e, calls)
                | Inr m \<Rightarrow>
                    (case RFController_setTypeLookup parameter_name of
                       None \<Rightarrow> (Inl (missing_key parameter_name), calls)
                     | Some cast \<Rightarrow>
                         (case cast m of
                            Inl e \<Rightarrow> (Inl e, calls)
                          | Inr parameter \<Rightarrow>
                              (Inr v, calls @ [(''set_'' @ parameter_name,
                                                 [VStr rf_channel, parameter])]))))))"

subsection \<open>SANA\<close>

definition SANAControl_outputChannels :: "(string \<times> string) list" where
  "SANAControl_outputChannels = [(''dmd_FP_mirror_horizontal'', ''V''), (''dmd_FP_mirror_vertical'', ''V'')]"

definition SANAControl_outputLookup :: "string \<rightharpoonup> string" where
  "SANAControl_outputLookup =
     map_of [(''dmd_FP_mirror_horizontal'', ''2A''), (''dmd_FP_mirror_vertical'', ''2B'')]"

definition SANAControl_setValue ::
  "conversion \<Rightarrow> string \<Rightarrow> quantity \<Rightarrow> vendor_call list \<Rightarrow> (exc + quantity) \<times> vendor_call list" where
  "SANAControl_setValue m_as channel v calls =
     (case SANAControl_outputLookup channel of
        None \<Rightarrow> (Inl (missing_key channel), calls)
      | Some sana_channel \<Rightarrow>
          (case m_as v ''V'' of
             Inl e \<Rightarrow> (Inl e, calls)
           | Inr m \<Rightarrow> (Inr v, calls @ [(''set_channel_voltage'', [VStr sana_channel, VFloat m])])))"

subsection \<open>A conversion for closed examples\<close>

text \<open>
  Modelled from the spec: \<^verbatim>\<open>Quantity.m_as\<close> (\<^verbatim>\<open>modules.quantity\<close>) is not under
  src/; quantities carry a magnitude and a unit string, and adapters convert units. The
  table has the units the adapters name, each with its dimension and its factor to the
  base unit; a conversion between dimensions, or with a unit the table lacks, raises.
  For the PID lock's examples, a stand-in for \<^verbatim>\<open>str\<close> of a list of floats.
\<close>

definition unit_table :: "string \<rightharpoonup> string \<times> real" where
  "unit_table =
     map_of [([], ([], 1)),
             (''Hz'', (''Hz'', 1)), (''kHz'', (''Hz'', 1000)), (''MHz'', (''Hz'', 1000000)),
             (''THz'', (''Hz'', 1000000000000)),
             (''V'', (''V'', 1)), (''mV'', (''V'', 1 / 1000)),
             (''A'', (''A'', 1)), (''mA'', (''A'', 1 / 1000))]"

definition m_as_units :: conversion where
  "m_as_units q unit =
     (case (unit_table (units q), unit_table unit) of
        (Some (d1, f1), Some (d2, f2)) \<Rightarrow>
          if d1 = d2 then Inr (Finite (magnitude q * f1 / f2))
          else Inl (OtherException ''DimensionalityError'' [])
      | _ \<Rightarrow> Inl (OtherException ''UndefinedUnitError'' []))"

definition str_list0 :: "pyfloat list \<Rightarrow> string" where
  "str_list0 ms = []"

section \<open>Properties\<close>

lemma shutter_word_bit:
  "bit ((w AND NOT (push_bit n (1::int))) OR (push_bit n (of_bool v) AND push_bit n 1)) k
     = (if k = n then v else bit w k)"
  by (auto simp add: bit_simps)

lemma getShutter_bit:
  "0 \<le> i \<Longrightarrow> getShutter i s = Inr (bit (shutter s) (nat i))"
  by (simp add: getShutter_def and_one_eq mod_2_eq_odd bit_iff_odd_drop_bit)

lemmas prims = lock_def unlock_def wakeAll_def assign_def seq_def writeToConsole_def logger_def

text \<open>
  C10. For a bit index (not negative), \<^verbatim>\<open>onSetShutter(index, value)\<close> returns
  without error and changes nothing but the shutter word; the new word has \<open>value\<close> at
  position \<open>index\<close> and the old bit everywhere else, so \<^verbatim>\<open>getShutter(index)\<close>
  is \<open>value\<close> afterwards and \<^verbatim>\<open>getShutter(j)\<close> is what it was for every other
  \<open>j\<close>.
\<close>

theorem onSetShutter_sets_bit:
  assumes "0 \<le> index"
  shows "fst (onSetShutter pystr index val s)
           = Inr (False, Some (''Set shutter '' @ pystr (PInt index) @ '' to '' @ pystr (PBool val)))
       \<and> (let s' = snd (onSetShutter pystr index val s) in
            s' = s\<lparr>shutter := shutter s'\<rparr>
          \<and> (\<forall>k. bit (shutter s') k = (if k = nat index then val else bit (shutter s) k))
          \<and> getShutter index s' = Inr val
          \<and> (\<forall>j. j \<noteq> index \<longrightarrow> getShutter j s' = getShutter j s))"
proof -
  let ?s' = "snd (onSetShutter pystr index val s)"
  have sh: "shutter ?s' = (shutter s AND NOT (push_bit (nat index) 1))
              OR (push_bit (nat index) (of_bool val) AND push_bit (nat index) 1)"
    using assms by (simp add: onSetShutter_def Let_def)
  have bits: "bit (shutter ?s') k = (if k = nat index then val else bit (shutter s) k)" for k
    unfolding sh by (rule shutter_word_bit)
  have frame: "?s' = s\<lparr>shutter := shutter ?s'\<rparr>"
    using assms by (simp add: onSetShutter_def Let_def)
  have same: "getShutter index ?s' = Inr val"
    using assms by (simp add: getShutter_bit bits)
  have other: "getShutter j ?s' = getShutter j s" if "j \<noteq> index" for j
  proof (cases "0 \<le> j")
    case True
    with that assms have "nat j \<noteq> nat index" by simp
    with True show ?thesis by (simp add: getShutter_bit bits)
  next
    case False
    then show ?thesis by (simp add: getShutter_def)
  qed
  have res: "fst (onSetShutter pystr index val s)
           = Inr (False, Some (''Set shutter '' @ pystr (PInt index) @ '' to '' @ pystr (PBool val)))"
    using assms by (simp add: onSetShutter_def Let_def)
  show ?thesis
    unfolding Let_def using res frame bits same other by blast
qed

theorem onSetShutter_sets_bit_witness:
  "(0::int) \<le> 3
   \<and> getShutter 3 (snd (onSetShutter (\<lambda>v. []) 3 True world0)) = Inr True
   \<and> getShutter 2 (snd (onSetShutter (\<lambda>v. []) 3 True world0)) = Inr False"
proof -
  have "getShutter 2 world0 = Inr False"
    by (simp add: getShutter_def world0_def)
  then show ?thesis
    using onSetShutter_sets_bit [of 3 "\<lambda>v. []" True world0]
    by (simp add: Let_def)
qed

text \<open>
  C1. \<^verbatim>\<open>onStopScript\<close> sets the stopped flag and the ready flag of allData, but
  it never calls \<^verbatim>\<open>allDataWait.wakeAll()\<close>: a thread \<open>t\<close> waiting on
  \<^verbatim>\<open>allDataWait\<close> is still waiting afterwards, whereas \<^verbatim>\<open>onAllData\<close>
  releases it.
\<close>

theorem onStopScript_leaves_allDataWait_blocked:
  "blocked (onStopScript (s\<lparr>blocked := (blocked s)(AllDataWait := {t})\<rparr>)) AllDataWait = {t}
   \<and> WakeAll AllDataWait \<notin> set (events (onStopScript (s\<lparr>events := []\<rparr>)))
   \<and> stopped (onStopScript s) \<and> allDataReady (onStopScript s)
   \<and> blocked (onAllData d (s\<lparr>blocked := (blocked s)(AllDataWait := {t})\<rparr>)) AllDataWait = {}"
  by (simp add: onStopScript_def onAllData_def prims)

text \<open>The other six condition variables are woken by \<^verbatim>\<open>onStopScript\<close>.\<close>

lemma onStopScript_wakes_six:
  "c \<noteq> AllDataWait \<Longrightarrow> blocked (onStopScript s) c = {}"
  by (cases c) (simp_all add: onStopScript_def prims)

lemma findText_absent: "findText items name = - 1 \<longleftrightarrow> name \<notin> set items"
proof (induction items)
  case Nil
  then show ?case by simp
next
  case (Cons item items)
  have nonneg: "name \<in> set xs \<Longrightarrow> 0 \<le> findText xs name" for xs
    by (induction xs) (auto simp: Let_def)
  from Cons nonneg [of items] show ?case
    by (auto simp: Let_def)
qed

lemma settings_console [simp]: "settings (writeToConsole m e c s) = settings s"
  by (simp add: settings_def writeToConsole_def)

lemma settings_logger [simp]: "settings (logger l m s) = settings s"
  by (simp add: settings_def logger_def)

lemma settings_scriptCommand_error:
  "func s = (Inr (True, m), s) \<Longrightarrow> settings (scriptCommand func s) = settings s"
  by (simp add: scriptCommand_def tryBlock_def prims settings_def)

text \<open>
  C3. For a name that is not registered (no such global, no such item of the scan or
  evaluation combo box, no such key of the analysis definitions), \<^verbatim>\<open>onSetGlobal\<close>,
  \<^verbatim>\<open>onSetScan\<close>, \<^verbatim>\<open>onSetEvaluation\<close> and \<^verbatim>\<open>onSetAnalysis\<close> return
  \<^verbatim>\<open>(True, message)\<close> with the message naming what does not exist, and the state
  is the one before the call; the decorated handler leaves the globals, the revert
  snapshots and the registered and active scan, evaluation and analysis as they were. The
  witness is the example of the spec: \<^verbatim>\<open>onSetScan("Scan_B")\<close> with only Scan_A
  registered.
\<close>

theorem unknown_name_rejected:
  "(globalDict s name = None \<longrightarrow>
      onSetGlobal pystr name val unit s
        = (Inr (True, Some (''Global variable '' @ name @ '' does not exist.'')), s)
      \<and> settings (scriptCommand (onSetGlobal pystr name val unit) s) = settings s)
   \<and> (name \<notin> set (scanComboBox s) \<longrightarrow>
      onSetScan name s = (Inr (True, Some (''Scan '' @ name @ '' does not exist.'')), s)
      \<and> settings (scriptCommand (onSetScan name) s) = settings s)
   \<and> (name \<notin> set (evaluationComboBox s) \<longrightarrow>
      onSetEvaluation name s = (Inr (True, Some (''Evaluation '' @ name @ '' does not exist.'')), s)
      \<and> settings (scriptCommand (onSetEvaluation name) s) = settings s)
   \<and> (name \<notin> dom (analysisDefinitionDict s) \<longrightarrow>
      onSetAnalysis name s = (Inr (True, Some (''Analysis '' @ name @ '' does not exist.'')), s)
      \<and> settings (scriptCommand (onSetAnalysis name) s) = settings s)"
proof -
  have g: "onSetGlobal pystr name val unit s
        = (Inr (True, Some (''Global variable '' @ name @ '' does not exist.'')), s)"
    if "globalDict s name = None"
    using that by (simp add: onSetGlobal_def)
  have sc: "onSetScan name s = (Inr (True, Some (''Scan '' @ name @ '' does not exist.'')), s)"
    if "name \<notin> set (scanComboBox s)"
    using that by (simp add: onSetScan_def findText_absent)
  have ev: "onSetEvaluation name s
        = (Inr (True, Some (''Evaluation '' @ name @ '' does not exist.'')), s)"
    if "name \<notin> set (evaluationComboBox s)"
    using that by (simp add: onSetEvaluation_def findText_absent)
  have an: "onSetAnalysis name s
        = (Inr (True, Some (''Analysis '' @ name @ '' does not exist.'')), s)"
    if "name \<notin> dom (analysisDefinitionDict s)"
    using that by (simp add: onSetAnalysis_def domIff)
  show ?thesis
  proof (intro conjI impI)
    assume a: "globalDict s name = None"
    show "onSetGlobal pystr name val unit s
        = (Inr (True, Some (''Global variable '' @ name @ '' does not exist.'')), s)"
      by (rule g [OF a])
    show "settings (scriptCommand (onSetGlobal pystr name val unit) s) = settings s"
      using g [OF a] by (rule settings_scriptCommand_error [of "onSetGlobal pystr name val unit" s])
  next
    assume a: "name \<notin> set (scanComboBox s)"
    show "onSetScan name s = (Inr (True, Some (''Scan '' @ name @ '' does not exist.'')), s)"
      by (rule sc [OF a])
    show "settings (scriptCommand (onSetScan name) s) = settings s"
      using sc [OF a] by (rule settings_scriptCommand_error [of "onSetScan name" s])
  next
    assume a: "name \<notin> set (evaluationComboBox s)"
    show "onSetEvaluation name s
        = (Inr (True, Some (''Evaluation '' @ name @ '' does not exist.'')), s)"
      by (rule ev [OF a])
    show "settings (scriptCommand (onSetEvaluation name) s) = settings s"
      using ev [OF a] by (rule settings_scriptCommand_error [of "onSetEvaluation name" s])
  next
    assume a: "name \<notin> dom (analysisDefinitionDict s)"
    show "onSetAnalysis name s
        = (Inr (True, Some (''Analysis '' @ name @ '' does not exist.'')), s)"
      by (rule an [OF a])
    show "settings (scriptCommand (onSetAnalysis name) s) = settings s"
      using an [OF a] by (rule settings_scriptCommand_error [of "onSetAnalysis name" s])
  qed
qed

theorem unknown_name_rejected_witness:
  "''Scan_B'' \<notin> set (scanComboBox (world0\<lparr>scanComboBox := [''Scan_A''], scanSettingsName := ''Scan_A''\<rparr>))
   \<and> onSetScan ''Scan_B'' (world0\<lparr>scanComboBox := [''Scan_A''], scanSettingsName := ''Scan_A''\<rparr>)
       = (Inr (True, Some ''Scan Scan_B does not exist.''),
          world0\<lparr>scanComboBox := [''Scan_A''], scanSettingsName := ''Scan_A''\<rparr>)
   \<and> globalDict world0 ''x'' = None
   \<and> onSetGlobal (\<lambda>v. []) ''x'' 1 ''V'' world0
       = (Inr (True, Some ''Global variable x does not exist.''), world0)
   \<and> ''e'' \<notin> set (evaluationComboBox world0)
   \<and> onSetEvaluation ''e'' world0 = (Inr (True, Some ''Evaluation e does not exist.''), world0)
   \<and> ''a'' \<notin> dom (analysisDefinitionDict world0)
   \<and> onSetAnalysis ''a'' world0 = (Inr (True, Some ''Analysis a does not exist.''), world0)"
proof -
  let ?w = "world0\<lparr>scanComboBox := [''Scan_A''], scanSettingsName := ''Scan_A''\<rparr>"
  have 1: "''Scan_B'' \<notin> set (scanComboBox ?w)" by simp
  have 2: "globalDict world0 ''x'' = None" by (simp add: world0_def)
  have 3: "''e'' \<notin> set (evaluationComboBox world0)" by (simp add: world0_def)
  have 4: "''a'' \<notin> dom (analysisDefinitionDict world0)" by (simp add: world0_def)
  show ?thesis
    using 1 2 3 4
      unknown_name_rejected [of ?w "''Scan_B''" "\<lambda>v. []" 1 "''V''"]
      unknown_name_rejected [of world0 "''x''" "\<lambda>v. []" 1 "''V''"]
      unknown_name_rejected [of world0 "''e''" "\<lambda>v. []" 1 "''V''"]
      unknown_name_rejected [of world0 "''a''" "\<lambda>v. []" 1 "''V''"]
    by simp
qed

lemma revert_scriptCommand:
  "globalVariablesRevertDict (scriptCommand func s) = globalVariablesRevertDict (snd (func s))"
  by (cases "func s")
     (auto simp: scriptCommand_def tryBlock_def prims split: sum.splits prod.splits if_splits)

lemma globalDict_scriptCommand:
  "globalDict (scriptCommand func s) = globalDict (snd (func s))"
  by (cases "func s")
     (auto simp: scriptCommand_def tryBlock_def prims split: sum.splits prod.splits if_splits)

lemma revert_onSetGlobal:
  "globalVariablesRevertDict (snd (onSetGlobal pystr name val unit s))
     = (case globalDict s name of
          None \<Rightarrow> globalVariablesRevertDict s
        | Some old \<Rightarrow>
            if globalVariablesRevertDict s name = None
            then (globalVariablesRevertDict s)(name \<mapsto> old)
            else globalVariablesRevertDict s)"
  by (auto simp: onSetGlobal_def model_update_def Let_def split: option.splits)

lemma setGlobals_Nil [simp]: "setGlobals pystr [] s = s"
  by (simp add: setGlobals_def)

lemma setGlobals_Cons [simp]:
  "setGlobals pystr ((name, val, unit) # calls) s
     = setGlobals pystr calls (scriptCommand (onSetGlobal pystr name val unit) s)"
  by (simp add: setGlobals_def)

lemma setGlobals_append:
  "setGlobals pystr (pre @ post) s = setGlobals pystr post (setGlobals pystr pre s)"
  by (simp add: setGlobals_def)

lemma revert_kept:
  "globalVariablesRevertDict s name = Some q \<Longrightarrow>
   globalVariablesRevertDict (setGlobals pystr calls s) name = Some q"
proof (induction calls arbitrary: s)
  case Nil
  then show ?case by simp
next
  case (Cons c calls)
  obtain n v u where c: "c = (n, v, u)" by (cases c) auto
  have "globalVariablesRevertDict (scriptCommand (onSetGlobal pystr n v u) s) name = Some q"
    using Cons.prems
    by (auto simp: revert_scriptCommand revert_onSetGlobal split: option.splits)
  then show ?case
    unfolding c setGlobals_Cons by (rule Cons.IH)
qed

lemma revert_untouched:
  "name \<notin> fst ` set calls \<Longrightarrow>
   globalVariablesRevertDict (setGlobals pystr calls s) name = globalVariablesRevertDict s name"
proof (induction calls arbitrary: s)
  case Nil
  then show ?case by simp
next
  case (Cons c calls)
  obtain n v u where c: "c = (n, v, u)" by (cases c) auto
  from Cons.prems c have ne: "n \<noteq> name" and rest: "name \<notin> fst ` set calls" by auto
  have "globalVariablesRevertDict (scriptCommand (onSetGlobal pystr n v u) s) name
          = globalVariablesRevertDict s name"
    using ne by (auto simp: revert_scriptCommand revert_onSetGlobal split: option.splits)
  with Cons.IH [OF rest] show ?case
    unfolding c setGlobals_Cons by simp
qed

lemma revert_onStartScript:
  "\<not> isRunning s \<Longrightarrow> globalVariablesRevertDict (onStartScript s) = Map.empty"
  by (simp add: onStartScript_def prims)

text \<open>
  C4. A new script run clears the revert snapshots (\<^verbatim>\<open>onStartScript\<close> with the
  script not running). From there, through any \<^verbatim>\<open>setGlobal\<close> requests \<open>pre\<close> on
  other names, the snapshot of an existing global \<open>name\<close> is still missing; the first
  \<^verbatim>\<open>setGlobal\<close> on \<open>name\<close> records the value \<open>q\<close> the global had just before
  that call, and whatever \<^verbatim>\<open>setGlobal\<close> requests \<open>post\<close> follow, on this name or
  others, the snapshot stays \<open>q\<close>.
\<close>

theorem revert_snapshot_first_call_only:
  assumes "\<not> isRunning s0"
    and "name \<notin> fst ` set pre"
    and "globalDict (setGlobals pystr pre (onStartScript s0)) name = Some q"
  shows "globalVariablesRevertDict (onStartScript s0) = Map.empty
       \<and> globalVariablesRevertDict (setGlobals pystr pre (onStartScript s0)) name = None
       \<and> (\<forall>post. globalVariablesRevertDict
                    (setGlobals pystr (pre @ (name, val, unit) # post) (onStartScript s0)) name
                  = Some q)"
proof -
  let ?s = "onStartScript s0"
  let ?t = "setGlobals pystr pre ?s"
  have cleared: "globalVariablesRevertDict ?s = Map.empty"
    using assms(1) by (rule revert_onStartScript)
  have before: "globalVariablesRevertDict ?t name = None"
    using revert_untouched [OF assms(2), of pystr ?s] cleared by simp
  have first: "globalVariablesRevertDict (scriptCommand (onSetGlobal pystr name val unit) ?t) name
                 = Some q"
    using before assms(3) by (simp add: revert_scriptCommand revert_onSetGlobal)
  have later: "globalVariablesRevertDict
                 (setGlobals pystr (pre @ (name, val, unit) # post) ?s) name = Some q" for post
    unfolding setGlobals_append setGlobals_Cons using first by (rule revert_kept)
  from cleared before later show ?thesis by blast
qed

theorem revert_snapshot_first_call_only_witness:
  "\<not> isRunning (world0\<lparr>globalDict := [''x'' \<mapsto> Q 1 ''V'']\<rparr>)
   \<and> ''x'' \<notin> fst ` set ([] :: (string \<times> real \<times> string) list)
   \<and> globalVariablesRevertDict
        (setGlobals (\<lambda>v. []) [(''x'', 2, ''V''), (''x'', 3, ''V'')]
           (onStartScript (world0\<lparr>globalDict := [''x'' \<mapsto> Q 1 ''V'']\<rparr>))) ''x''
       = Some (Q 1 ''V'')"
proof -
  let ?s0 = "world0\<lparr>globalDict := [''x'' \<mapsto> Q 1 ''V'']\<rparr>"
  have 1: "\<not> isRunning ?s0" by (simp add: world0_def)
  have 2: "''x'' \<notin> fst ` set ([] :: (string \<times> real \<times> string) list)" by simp
  have 3: "globalDict (setGlobals (\<lambda>v. []) [] (onStartScript ?s0)) ''x'' = Some (Q 1 ''V'')"
    using 1 by (simp add: onStartScript_def prims)
  show ?thesis
    using 1 2 revert_snapshot_first_call_only [OF 1 2 3, of 2 "''V''"]
    by (simp del: setGlobals_Cons setGlobals_Nil)
qed

text \<open>
  C9. When the trace name is not in \<^verbatim>\<open>scriptTraces\<close>, \<^verbatim>\<open>plotList\<close>,
  \<^verbatim>\<open>onPlotList\<close> and \<^verbatim>\<open>onPlotPoint\<close> return \<^verbatim>\<open>(True, 'Trace ... does not exist')\<close>
  and change nothing. For an existing trace (\<^verbatim>\<open>onCreateTrace\<close> writes its entry of
  \<^verbatim>\<open>scriptTraces\<close> and of \<^verbatim>\<open>traceAlreadyCreated\<close> together, and nothing deletes
  the latter) and lists of different lengths, \<^verbatim>\<open>plotList\<close> and \<^verbatim>\<open>onPlotList\<close>
  return \<^verbatim>\<open>(True, 'x and y lists are of unequal lengths')\<close> and change nothing: the
  x and y data of the trace and the created flag are as before. Whatever the dictionaries
  hold, lists of different lengths give an error and an unchanged state.
\<close>

theorem plotList_rejects:
  "(scriptTraces s traceName = None \<longrightarrow>
      plotList pystr xList yList traceName overwrite plotStyle s
        = ((True, ''Trace '' @ traceName @ '' does not exist''), s)
      \<and> onPlotList pystr xList yList traceName overwrite plotStyle s
        = (Inr (True, Some (''Trace '' @ traceName @ '' does not exist'')), s)
      \<and> onPlotPoint pystr px py traceName plotStyle s
        = (Inr (True, Some (''Trace '' @ traceName @ '' does not exist'')), s))
   \<and> (scriptTraces s traceName \<noteq> None \<and> traceAlreadyCreated s traceName \<noteq> None
        \<and> length xList \<noteq> length yList \<longrightarrow>
      plotList pystr xList yList traceName overwrite plotStyle s
        = ((True, ''x and y lists are of unequal lengths''), s)
      \<and> onPlotList pystr xList yList traceName overwrite plotStyle s
        = (Inr (True, Some ''x and y lists are of unequal lengths''), s))
   \<and> (length xList \<noteq> length yList \<longrightarrow>
        fst (fst (plotList pystr xList yList traceName overwrite plotStyle s))
      \<and> snd (plotList pystr xList yList traceName overwrite plotStyle s) = s)"
  by (auto simp: plotList_def onPlotList_def onPlotPoint_def split: option.splits)

theorem plotList_rejects_witness:
  "scriptTraces world0 ''t'' = None
   \<and> plotList (\<lambda>v. []) [1] [] ''t'' False (- 1) world0 = ((True, ''Trace t does not exist''), world0)
   \<and> scriptTraces (world0\<lparr>scriptTraces := [''t'' \<mapsto> \<lparr>x = [1], y = [2]\<rparr>],
                               traceAlreadyCreated := [''t'' \<mapsto> True]\<rparr>) ''t'' \<noteq> None
   \<and> traceAlreadyCreated (world0\<lparr>scriptTraces := [''t'' \<mapsto> \<lparr>x = [1], y = [2]\<rparr>],
                               traceAlreadyCreated := [''t'' \<mapsto> True]\<rparr>) ''t'' \<noteq> None
   \<and> length [1, 2 :: real] \<noteq> length [5 :: real]
   \<and> plotList (\<lambda>v. []) [1, 2] [5] ''t'' False (- 1)
        (world0\<lparr>scriptTraces := [''t'' \<mapsto> \<lparr>x = [1], y = [2]\<rparr>],
                               traceAlreadyCreated := [''t'' \<mapsto> True]\<rparr>)
       = ((True, ''x and y lists are of unequal lengths''),
          world0\<lparr>scriptTraces := [''t'' \<mapsto> \<lparr>x = [1], y = [2]\<rparr>],
                               traceAlreadyCreated := [''t'' \<mapsto> True]\<rparr>)"
proof -
  let ?w = "world0\<lparr>scriptTraces := [''t'' \<mapsto> \<lparr>x = [1], y = [2]\<rparr>],
                               traceAlreadyCreated := [''t'' \<mapsto> True]\<rparr>"
  have 1: "scriptTraces world0 ''t'' = None" by (simp add: world0_def)
  have 2: "scriptTraces ?w ''t'' \<noteq> None" by simp
  have 3: "traceAlreadyCreated ?w ''t'' \<noteq> None" by simp
  have 4: "length [1, 2 :: real] \<noteq> length [5 :: real]" by simp
  show ?thesis
    using 1 2 3 4
      plotList_rejects [of world0 "''t''" "\<lambda>v. []" "[1]" "[]" False "- 1" 0 0]
      plotList_rejects [of ?w "''t''" "\<lambda>v. []" "[1, 2]" "[5]" False "- 1" 0 0]
    by simp
qed

text \<open>
  The handlers that wake inside the locked section: \<^verbatim>\<open>onData\<close>,
  \<^verbatim>\<open>onAllData\<close>, \<^verbatim>\<open>onAnalysisResult\<close>, \<^verbatim>\<open>onStopScript\<close> and
  \<^verbatim>\<open>onPauseScript\<close> write their flags and call \<^verbatim>\<open>wakeAll\<close> while the mutex
  is held.
\<close>

lemma siblings_wake_under_mutex:
  "events (onData d (s\<lparr>events := []\<rparr>))
     = [Lock, Write ''data'', Write ''dataReady'', WakeAll DataWait, Unlock]
   \<and> events (onAllData d (s\<lparr>events := []\<rparr>))
     = [Lock, Write ''allData'', Write ''allDataReady'', WakeAll AllDataWait, Unlock]
   \<and> events (onAnalysisResult d (s\<lparr>events := []\<rparr>))
     = [Lock, Write ''analysisResults'', Write ''analysisReady'', WakeAll AnalysisWait, Unlock]
   \<and> guarded False (events (onData d (s\<lparr>events := []\<rparr>)))
   \<and> guarded False (events (onAllData d (s\<lparr>events := []\<rparr>)))
   \<and> guarded False (events (onAnalysisResult d (s\<lparr>events := []\<rparr>)))
   \<and> guarded False (events (onStopScript (s\<lparr>events := []\<rparr>)))
   \<and> guarded False (events (onPauseScript p (s\<lparr>events := []\<rparr>)))"
  by (simp add: onData_def onAllData_def onAnalysisResult_def onStopScript_def
        onPauseScript_def prims)

text \<open>
  C5. The wakes of two producer paths are not under the mutex. \<^verbatim>\<open>onGenericCall\<close>
  stores \<^verbatim>\<open>genericResult\<close> inside the \<^verbatim>\<open>with\<close> block and calls
  \<^verbatim>\<open>genericWait.wakeAll()\<close> after the block has released the mutex. The decorator
  calls \<^verbatim>\<open>guiWait.wakeAll()\<close> in its \<^verbatim>\<open>finally\<close> clause: after a handler that
  succeeds (here \<^verbatim>\<open>onSetScan\<close> of a registered scan) the mutex was never taken, and
  after one that fails it has been released again.
\<close>

theorem wakeAll_without_mutex:
  "events (snd (onGenericCall rest pystr ''getGlobal'' [PStr name] [] (s\<lparr>events := []\<rparr>)))
     = [Lock, Write ''genericResult'', Unlock, WakeAll GenericWait]
   \<and> \<not> guarded False
         (events (snd (onGenericCall rest pystr ''getGlobal'' [PStr name] [] (s\<lparr>events := []\<rparr>))))
   \<and> events (scriptCommand (onSetScan name) (s\<lparr>events := [], scanComboBox := [name]\<rparr>))
     = [WakeAll GuiWait]
   \<and> \<not> guarded False
         (events (scriptCommand (onSetScan name) (s\<lparr>events := [], scanComboBox := [name]\<rparr>)))
   \<and> events (scriptCommand (onSetScan name) (s\<lparr>events := [], scanComboBox := []\<rparr>))
     = [Lock, Write ''exception'', Unlock, WakeAll GuiWait]
   \<and> \<not> guarded False
         (events (scriptCommand (onSetScan name) (s\<lparr>events := [], scanComboBox := []\<rparr>)))"
  by (simp add: scriptCommand_def tryBlock_def onGenericCall_def getattr_call_def onSetScan_def
        scan_loadSetting_def prims)

lemma scriptCommand_catches:
  "func s = (Inl e, s1) \<Longrightarrow>
   scriptCommand func s
     = wakeAll GuiWait (unlock (logger ERROR ''None''
         (assign ''exception'' (\<lambda>t. t\<lparr>exception := Some e\<rparr>) (lock s1))))"
  by (simp add: scriptCommand_def tryBlock_def seq_def)

text \<open>
  C2. The decorator catches what a handler raises, stores it under the mutex and wakes
  \<^verbatim>\<open>guiWait\<close> (\<open>scriptCommand_catches\<close>). But when the function called by
  \<^verbatim>\<open>onGenericCall\<close> raises, here \<^verbatim>\<open>getShutter(-1)\<close>, the
  \<^verbatim>\<open>genericWait.wakeAll()\<close> of the \<^verbatim>\<open>try\<close> block is skipped: the exception is
  stored and \<^verbatim>\<open>guiWait\<close> is woken, while a thread \<open>t\<close> waiting on
  \<^verbatim>\<open>genericWait\<close> stays blocked and \<^verbatim>\<open>genericResult\<close> keeps its old value.
\<close>

theorem failed_generic_call_leaves_genericWait_blocked:
  "(let s' = scriptCommand (onGenericCall rest pystr ''getShutter'' [PInt (- 1)] [])
               (s\<lparr>blocked := (blocked s)(GenericWait := {t}, GuiWait := {t'}), events := []\<rparr>)
    in exception s' = Some (ScriptException ''negative shift count'')
     \<and> blocked s' GenericWait = {t}
     \<and> blocked s' GuiWait = {}
     \<and> genericResult s' = genericResult s
     \<and> events s' = [Lock, Unlock, Lock, Write ''exception'', Unlock, WakeAll GuiWait])"
  by (simp add: scriptCommand_def tryBlock_def onGenericCall_def getattr_call_def getShutter_def
        prims Let_def)

text \<open>
  C6. \<^verbatim>\<open>getGlobal\<close> on a name that is no global, called through
  \<^verbatim>\<open>onGenericCall\<close>: the ScriptException is returned as a value, so the call counts
  as executed. The console gets the non-error line \<^verbatim>\<open>getGlobal(...) executed\<close>, the
  Script's exception field stays None, and the exception object is the generic result.
  The set-handlers do surface their validation errors (\<open>validation_error_surfaced\<close>).
\<close>

theorem getGlobal_unknown_reported_as_success:
  "(let s0 = s\<lparr>globalDict := (globalDict s)(name := None), exception := None, console := []\<rparr>;
        s' = scriptCommand (onGenericCall rest pystr ''getGlobal'' [PStr name] []) s0
    in exception s' = None
     \<and> genericResult s'
         = PExc (ScriptException (''Global '' @ [CHR 0x27] @ name @ [CHR 0x27] @ '' does not exist!''))
     \<and> console s' = [(''getGlobal'' @ pystr (PTuple [PStr name]) @ '' executed'', False, [])]
     \<and> fst (onGenericCall rest pystr ''getGlobal'' [PStr name] [] s0)
         = Inr (False, Some (''getGlobal'' @ pystr (PTuple [PStr name]) @ '' executed'')))"
  by (simp add: scriptCommand_def tryBlock_def onGenericCall_def getattr_call_def getGlobal_def
        prims Let_def)

lemma validation_error_surfaced:
  "func s = (Inr (True, Some (m # ms)), s) \<Longrightarrow>
   exception (scriptCommand func s) = Some (ScriptException (m # ms))
   \<and> console (scriptCommand func s) = console s @ [(m # ms, True, [])]
   \<and> blocked (scriptCommand func s) GuiWait = {}"
  by (simp add: scriptCommand_def tryBlock_def prims)

text \<open>
  For data, allData and analysisResults, and for a generic call whose function returns,
  a consumer \<open>t\<close> that waits when the producer fires is released by the one
  \<^verbatim>\<open>wakeAll\<close> of the handler and drains the value of this request.
\<close>

lemma waiting_consumer_served:
  "(let s' = onData d (s\<lparr>blocked := (blocked s)(DataWait := {t}), events := []\<rparr>)
    in consumer_drain t DataSlot s' = Some (d, s'\<lparr>dataReady := False\<rparr>)
     \<and> count_list (events s') (WakeAll DataWait) = 1)
   \<and> (let s' = onAllData d (s\<lparr>blocked := (blocked s)(AllDataWait := {t}), events := []\<rparr>)
    in consumer_drain t AllDataSlot s' = Some (d, s'\<lparr>allDataReady := False\<rparr>)
     \<and> count_list (events s') (WakeAll AllDataWait) = 1)
   \<and> (let s' = onAnalysisResult d (s\<lparr>blocked := (blocked s)(AnalysisWait := {t}), events := []\<rparr>)
    in consumer_drain t AnalysisSlot s' = Some (d, s'\<lparr>analysisReady := False\<rparr>)
     \<and> count_list (events s') (WakeAll AnalysisWait) = 1)
   \<and> (let s' = scriptCommand (onGenericCall rest pystr ''getGlobal'' [PStr name] [])
                 (s\<lparr>blocked := (blocked s)(GenericWait := {t}), events := []\<rparr>)
    in consumer_drain t GenericSlot s' = Some (getGlobal name s, s')
     \<and> count_list (events s') (WakeAll GenericWait) = 1)"
  by (simp add: onData_def onAllData_def onAnalysisResult_def scriptCommand_def tryBlock_def
        onGenericCall_def getattr_call_def getGlobal_def consumer_drain_def prims Let_def)

text \<open>
  C8. For the request category genericResult the claim fails when the function called
  raises, here \<^verbatim>\<open>getShutter(-1)\<close>: the consumer \<open>t\<close> waiting on
  \<^verbatim>\<open>genericWait\<close> gets no wakeup, is still waiting afterwards and has drained
  nothing, and \<^verbatim>\<open>genericResult\<close> still holds the value of the earlier request.
\<close>

theorem waiting_consumer_lost_on_failed_generic_call:
  "(let s0 = s\<lparr>blocked := (blocked s)(GenericWait := {t}), events := []\<rparr>;
        s' = scriptCommand (onGenericCall rest pystr ''getShutter'' [PInt (- 1)] []) s0
    in t \<in> blocked s0 (slot_wait GenericSlot)
     \<and> consumer_drain t GenericSlot s' = None
     \<and> t \<in> blocked s' GenericWait
     \<and> count_list (events s') (WakeAll GenericWait) = 0
     \<and> slot_value GenericSlot s' = slot_value GenericSlot s)"
  by (simp add: scriptCommand_def tryBlock_def onGenericCall_def getattr_call_def getShutter_def
        consumer_drain_def prims Let_def)

lemma DS345_configured:
  "ch \<in> fst ` set DS345_outputChannels \<longrightarrow>
   (\<exists>func_name unit. DS345_outputLookup ch = Some (func_name, unit)
     \<and> unit = (if ch = ''Frequency'' then ''Hz'' else if ch = ''Function'' then [] else ''V'')
     \<and> (\<forall>e. m_as v unit = Inl e \<longrightarrow> DS345_setValue m_as ch v calls = (Inl e, calls))
     \<and> (\<forall>m. m_as v unit = Inr m \<longrightarrow>
           DS345_setValue m_as ch v calls = (Inr v, calls @ [(func_name, [VNum m])])))"
  by (auto simp: DS345_outputChannels_def DS345_outputLookup_def DS345_setValue_def)

lemma LaserFreqPID_configured:
  "ch \<in> fst ` set LaserFreqPID_outputChannels \<longrightarrow>
   (\<exists>config_name unit. LaserFreqPID_outputLookup ch = Some (config_name, unit)
     \<and> unit = (if ch = ''FrequencySetpoint'' then ''THz'' else [])
     \<and> (\<forall>e. m_as v unit = Inl e \<longrightarrow>
           LaserFreqPID_setValue m_as str_list getValue ch v (cfg, calls) = (Inl e, cfg, calls))
     \<and> (\<forall>m. m_as v unit = Inr m \<longrightarrow>
           (let encoded = (if ch = ''FrequencySetpoint'' then str_list [m]
                           else if py_bool m then ''True'' else ''False'');
                cfg1 = cfg(config_name \<mapsto> encoded);
                calls1 = calls @ [(''update_config'', [cfg_section cfg1]), (''set_config'', []),
                                  (''get_config'', [])]
            in LaserFreqPID_setValue m_as str_list getValue ch v (cfg, calls)
                 = (case getValue cfg1 of
                      (Inl e, cfg2) \<Rightarrow> (Inl e, cfg2, calls1)
                    | (Inr q', cfg2) \<Rightarrow> (Inr v, cfg2, calls1)))))"
  by (auto simp: LaserFreqPID_outputChannels_def LaserFreqPID_outputLookup_def
        LaserFreqPID_setValue_def LaserFreqPID_set_func_def Let_def)

lemma DCVoltageControl_configured:
  "ch \<in> fst ` set DCVoltageControl_outputChannels \<longrightarrow>
   (if ch = ''Enable Remote Control''
    then (\<forall>e. m_as v [] = Inl e \<longrightarrow> DCVoltageControl_setValue m_as ch v calls = (Inl e, calls))
       \<and> (\<forall>m e. m_as v [] = Inr m \<and> py_int m = Inl e \<longrightarrow>
             DCVoltageControl_setValue m_as ch v calls = (Inl e, calls))
       \<and> (\<forall>m k. m_as v [] = Inr m \<and> py_int m = Inr k \<and> k \<in> {0, 1, 255} \<longrightarrow>
             DCVoltageControl_setValue m_as ch v calls
               = (Inr v, calls @ [(''set_mode_all'', [VInt k])]))
       \<and> (\<forall>m k. m_as v [] = Inr m \<and> py_int m = Inr k \<and> k \<notin> {0, 1, 255} \<longrightarrow>
             DCVoltageControl_setValue m_as ch v calls
               = (Inl (ValueError ''Not an available mode!!!!!''), calls))
    else (\<exists>v_channel. DCVoltageControl_outputLookup ch = Some v_channel
            \<and> (\<forall>e. m_as v ''V'' = Inl e \<longrightarrow>
                  DCVoltageControl_setValue m_as ch v calls = (Inl e, calls))
            \<and> (\<forall>m. m_as v ''V'' = Inr m \<longrightarrow>
                  DCVoltageControl_setValue m_as ch v calls
                    = (Inr v, calls @ [(''set_volt'', [VSym v_channel, VFloat m])]))))"
proof (cases "ch = ''Enable Remote Control''")
  case True
  then show ?thesis
    by (auto simp: DCVoltageControl_setValue_def)
next
  case False
  then show ?thesis
    by (auto simp: DCVoltageControl_outputChannels_def DCVoltageControl_outputLookup_def
          DCVoltageControl_setValue_def)
qed

lemma FourRodOvenControl_configured:
  "ch \<in> fst ` set FourRodOvenControl_outputChannels \<longrightarrow>
   (ch = ''Oven current set'' \<longrightarrow>
      (\<forall>e. m_as v ''A'' = Inl e \<longrightarrow>
         FourRodOvenControl_setValue m_as ch v calls = (Inl e, calls))
    \<and> (\<forall>m. m_as v ''A'' = Inr m \<longrightarrow>
         FourRodOvenControl_setValue m_as ch v calls
           = (Inr v, calls @ [(''set_current'', [VFloat m])])))
   \<and> (ch = ''Oven voltage set'' \<longrightarrow>
      (\<forall>e. m_as v ''V'' = Inl e \<longrightarrow>
         FourRodOvenControl_setValue m_as ch v calls = (Inl e, calls))
    \<and> (\<forall>m. m_as v ''V'' = Inr m \<longrightarrow>
         FourRodOvenControl_setValue m_as ch v calls
           = (Inr v, calls @ [(''set_voltage'', [VFloat m])])))
   \<and> (ch \<noteq> ''Oven current set'' \<and> ch \<noteq> ''Oven voltage set'' \<longrightarrow>
        FourRodOvenControl_setValue m_as ch v calls = (Inr v, calls))"
  by (auto simp: FourRodOvenControl_setValue_def)

lemma RFController_frequency:
  "RFController_outputLookup ch = Some (rf_channel, ''frequency'') \<Longrightarrow>
     (\<forall>e. m_as v ''Hz'' = Inl e \<longrightarrow>
        RFController_setValue m_as ch v calls = (Inl e, calls))
   \<and> (\<forall>m e. m_as v ''Hz'' = Inr m \<and> py_int m = Inl e \<longrightarrow>
        RFController_setValue m_as ch v calls = (Inl e, calls))
   \<and> (\<forall>m k. m_as v ''Hz'' = Inr m \<and> py_int m = Inr k \<longrightarrow>
        RFController_setValue m_as ch v calls
          = (Inr v, calls @ [(''set_frequency'', [VStr rf_channel, VInt k])]))"
  by (simp add: RFController_setValue_def RFController_unitLookup_def
        RFController_setTypeLookup_def)

lemma RFController_power:
  "RFController_outputLookup ch = Some (rf_channel, ''power'') \<Longrightarrow>
     (\<forall>e. m_as v [] = Inl e \<longrightarrow>
        RFController_setValue m_as ch v calls = (Inl e, calls))
   \<and> (\<forall>m. m_as v [] = Inr m \<longrightarrow>
        RFController_setValue m_as ch v calls
          = (Inr v, calls @ [(''set_power'', [VStr rf_channel, VFloat m])]))"
  by (simp add: RFController_setValue_def RFController_unitLookup_def
        RFController_setTypeLookup_def)

lemma RFController_output_state:
  "RFController_outputLookup ch = Some (rf_channel, ''output_state'') \<Longrightarrow>
     (\<forall>e. m_as v [] = Inl e \<longrightarrow>
        RFController_setValue m_as ch v calls = (Inl e, calls))
   \<and> (\<forall>m. m_as v [] = Inr m \<longrightarrow>
        RFController_setValue m_as ch v calls
          = (Inr v, calls @ [(''set_output_state'', [VStr rf_channel, VBool (py_bool m)])]))"
  by (simp add: RFController_setValue_def RFController_unitLookup_def
        RFController_setTypeLookup_def)

lemma RFController_lookup:
  "ch \<in> fst ` set RFController_outputChannels \<Longrightarrow>
   \<exists>rf_channel parameter_name.
       RFController_outputLookup ch = Some (rf_channel, parameter_name)
     \<and> parameter_name \<in> {''frequency'', ''power'', ''output_state''}
     \<and> (map_of RFController_outputChannels ch = Some ''MHz'' \<longrightarrow> parameter_name = ''frequency'')"
  by (auto simp: RFController_outputChannels_def RFController_outputLookup_def)

lemma RFController_configured:
  "ch \<in> fst ` set RFController_outputChannels \<longrightarrow>
   (\<exists>rf_channel parameter_name.
       RFController_outputLookup ch = Some (rf_channel, parameter_name)
     \<and> parameter_name \<in> {''frequency'', ''power'', ''output_state''}
     \<and> (map_of RFController_outputChannels ch = Some ''MHz'' \<longrightarrow> parameter_name = ''frequency'')
     \<and> (parameter_name = ''frequency'' \<longrightarrow>
          (\<forall>e. m_as v ''Hz'' = Inl e \<longrightarrow>
             RFController_setValue m_as ch v calls = (Inl e, calls))
        \<and> (\<forall>m e. m_as v ''Hz'' = Inr m \<and> py_int m = Inl e \<longrightarrow>
             RFController_setValue m_as ch v calls = (Inl e, calls))
        \<and> (\<forall>m k. m_as v ''Hz'' = Inr m \<and> py_int m = Inr k \<longrightarrow>
             RFController_setValue m_as ch v calls
               = (Inr v, calls @ [(''set_frequency'', [VStr rf_channel, VInt k])])))
     \<and> (parameter_name = ''power'' \<longrightarrow>
          (\<forall>e. m_as v [] = Inl e \<longrightarrow>
             RFController_setValue m_as ch v calls = (Inl e, calls))
        \<and> (\<forall>m. m_as v [] = Inr m \<longrightarrow>
             RFController_setValue m_as ch v calls
               = (Inr v, calls @ [(''set_power'', [VStr rf_channel, VFloat m])])))
     \<and> (parameter_name = ''output_state'' \<longrightarrow>
          (\<forall>e. m_as v [] = Inl e \<longrightarrow>
             RFController_setValue m_as ch v calls = (Inl e, calls))
        \<and> (\<forall>m. m_as v [] = Inr m \<longrightarrow>
             RFController_setValue m_as ch v calls
               = (Inr v, calls @ [(''set_output_state'', [VStr rf_channel, VBool (py_bool m)])]))))"
proof
  assume "ch \<in> fst ` set RFController_outputChannels"
  then obtain rf_channel parameter_name where
    l: "RFController_outputLookup ch = Some (rf_channel, parameter_name)"
    and p: "parameter_name \<in> {''frequency'', ''power'', ''output_state''}"
    and u: "map_of RFController_outputChannels ch = Some ''MHz'' \<longrightarrow> parameter_name = ''frequency''"
    using RFController_lookup by blast
  show "\<exists>rf_channel parameter_name.
       RFController_outputLookup ch = Some (rf_channel, parameter_name)
     \<and> parameter_name \<in> {''frequency'', ''power'', ''output_state''}
     \<and> (map_of RFController_outputChannels ch = Some ''MHz'' \<longrightarrow> parameter_name = ''frequency'')
     \<and> (parameter_name = ''frequency'' \<longrightarrow>
          (\<forall>e. m_as v ''Hz'' = Inl e \<longrightarrow>
             RFController_setValue m_as ch v calls = (Inl e, calls))
        \<and> (\<forall>m e. m_as v ''Hz'' = Inr m \<and> py_int m = Inl e \<longrightarrow>
             RFController_setValue m_as ch v calls = (Inl e, calls))
        \<and> (\<forall>m k. m_as v ''Hz'' = Inr m \<and> py_int m = Inr k \<longrightarrow>
             RFController_setValue m_as ch v calls
               = (Inr v, calls @ [(''set_frequency'', [VStr rf_channel, VInt k])])))
     \<and> (parameter_name = ''power'' \<longrightarrow>
          (\<forall>e. m_as v [] = Inl e \<longrightarrow>
             RFController_setValue m_as ch v calls = (Inl e, calls))
        \<and> (\<forall>m. m_as v [] = Inr m \<longrightarrow>
             RFController_setValue m_as ch v calls
               = (Inr v, calls @ [(''set_power'', [VStr rf_channel, VFloat m])])))
     \<and> (parameter_name = ''output_state'' \<longrightarrow>
          (\<forall>e. m_as v [] = Inl e \<longrightarrow>
             RFController_setValue m_as ch v calls = (Inl e, calls))
        \<and> (\<forall>m. m_as v [] = Inr m \<longrightarrow>
             RFController_setValue m_as ch v calls
               = (Inr v, calls @ [(''set_output_state'', [VStr rf_channel, VBool (py_bool m)])])))"
    using l p u RFController_frequency [of ch rf_channel m_as v calls]
      RFController_power [of ch rf_channel m_as v calls]
      RFController_output_state [of ch rf_channel m_as v calls]
    by (intro exI [of _ rf_channel] exI [of _ parameter_name]) blast
qed

lemma SANAControl_configured:
  "ch \<in> fst ` set SANAControl_outputChannels \<longrightarrow>
   (\<exists>sana_channel. SANAControl_outputLookup ch = Some sana_channel
     \<and> (\<forall>e. m_as v ''V'' = Inl e \<longrightarrow>
           SANAControl_setValue m_as ch v calls = (Inl e, calls))
     \<and> (\<forall>m. m_as v ''V'' = Inr m \<longrightarrow>
           SANAControl_setValue m_as ch v calls
             = (Inr v, calls @ [(''set_channel_voltage'', [VStr sana_channel, VFloat m])])))"
  by (auto simp: SANAControl_outputChannels_def SANAControl_outputLookup_def
        SANAControl_setValue_def)

lemma DS345_returns: "fst (DS345_setValue m_as ch v calls) = Inr q \<longrightarrow> q = v"
  by (simp add: DS345_setValue_def split: option.splits sum.splits prod.splits)

lemma LaserFreqPID_returns:
  "fst (LaserFreqPID_setValue m_as str_list getValue ch v st) = Inr q \<longrightarrow> q = v"
  by (simp add: LaserFreqPID_setValue_def Let_def split: option.splits sum.splits prod.splits)

lemma DCVoltageControl_returns:
  "fst (DCVoltageControl_setValue m_as ch v calls) = Inr q \<longrightarrow> q = v"
  by (simp add: DCVoltageControl_setValue_def split: option.splits sum.splits if_splits)

lemma FourRodOvenControl_returns:
  "fst (FourRodOvenControl_setValue m_as ch v calls) = Inr q \<longrightarrow> q = v"
  by (simp add: FourRodOvenControl_setValue_def split: sum.splits if_splits)

lemma RFController_returns: "fst (RFController_setValue m_as ch v calls) = Inr q \<longrightarrow> q = v"
  by (simp add: RFController_setValue_def split: option.splits sum.splits prod.splits)

lemma SANAControl_returns: "fst (SANAControl_setValue m_as ch v calls) = Inr q \<longrightarrow> q = v"
  by (simp add: SANAControl_setValue_def split: option.splits sum.splits)

text \<open>
  C7, as amended. For every adapter class and every channel of its
  \<^verbatim>\<open>_outputChannels\<close>, what \<^verbatim>\<open>setValue\<close> does is fixed by the conversion
  \<^verbatim>\<open>m_as\<close> to the unit the adapter's code names for the channel: Hz for the DS345
  frequency and for every RF controller channel configured in MHz, V, A, THz or
  dimensionless for the others. When the conversion raises, \<^verbatim>\<open>setValue\<close> raises the
  same exception and calls no vendor function. When it succeeds, \<^verbatim>\<open>setValue\<close> hands
  the vendor the converted number, after the \<^verbatim>\<open>int\<close>, \<^verbatim>\<open>float\<close>, \<^verbatim>\<open>bool\<close>
  or string encoding of the code, and returns the quantity it was given; except that an
  \<^verbatim>\<open>int\<close> that raises (infinity, NaN) is raised on, that the DC controller's remote
  control mode raises ValueError for any mode other than 0, 1 and 255, and that the PID
  lock raises what its read-back raises. The read-only oven channels make no vendor call
  and return the quantity. Whenever \<^verbatim>\<open>setValue\<close> returns, it returns the quantity it
  was given.
\<close>

theorem setValue_converts_then_calls_vendor:
  "(ch \<in> fst ` set DS345_outputChannels \<longrightarrow>
     (\<exists>func_name unit. DS345_outputLookup ch = Some (func_name, unit)
       \<and> unit = (if ch = ''Frequency'' then ''Hz'' else if ch = ''Function'' then [] else ''V'')
       \<and> (\<forall>e. m_as v unit = Inl e \<longrightarrow> DS345_setValue m_as ch v calls = (Inl e, calls))
       \<and> (\<forall>m. m_as v unit = Inr m \<longrightarrow>
             DS345_setValue m_as ch v calls = (Inr v, calls @ [(func_name, [VNum m])]))))
   \<and> (ch \<in> fst ` set LaserFreqPID_outputChannels \<longrightarrow>
     (\<exists>config_name unit. LaserFreqPID_outputLookup ch = Some (config_name, unit)
       \<and> unit = (if ch = ''FrequencySetpoint'' then ''THz'' else [])
       \<and> (\<forall>e. m_as v unit = Inl e \<longrightarrow>
             LaserFreqPID_setValue m_as str_list getValue ch v (cfg, calls) = (Inl e, cfg, calls))
       \<and> (\<forall>m. m_as v unit = Inr m \<longrightarrow>
             (let encoded = (if ch = ''FrequencySetpoint'' then str_list [m]
                             else if py_bool m then ''True'' else ''False'');
                  cfg1 = cfg(config_name \<mapsto> encoded);
                  calls1 = calls @ [(''update_config'', [cfg_section cfg1]), (''set_config'', []),
                                    (''get_config'', [])]
              in LaserFreqPID_setValue m_as str_list getValue ch v (cfg, calls)
                   = (case getValue cfg1 of
                        (Inl e, cfg2) \<Rightarrow> (Inl e, cfg2, calls1)
                      | (Inr q', cfg2) \<Rightarrow> (Inr v, cfg2, calls1))))))
   \<and> (ch \<in> fst ` set DCVoltageControl_outputChannels \<longrightarrow>
     (if ch = ''Enable Remote Control''
      then (\<forall>e. m_as v [] = Inl e \<longrightarrow> DCVoltageControl_setValue m_as ch v calls = (Inl e, calls))
         \<and> (\<forall>m e. m_as v [] = Inr m \<and> py_int m = Inl e \<longrightarrow>
               DCVoltageControl_setValue m_as ch v calls = (Inl e, calls))
         \<and> (\<forall>m k. m_as v [] = Inr m \<and> py_int m = Inr k \<and> k \<in> {0, 1, 255} \<longrightarrow>
               DCVoltageControl_setValue m_as ch v calls
                 = (Inr v, calls @ [(''set_mode_all'', [VInt k])]))
         \<and> (\<forall>m k. m_as v [] = Inr m \<and> py_int m = Inr k \<and> k \<notin> {0, 1, 255} \<longrightarrow>
               DCVoltageControl_setValue m_as ch v calls
                 = (Inl (ValueError ''Not an available mode!!!!!''), calls))
      else (\<exists>v_channel. DCVoltageControl_outputLookup ch = Some v_channel
              \<and> (\<forall>e. m_as v ''V'' = Inl e \<longrightarrow>
                    DCVoltageControl_setValue m_as ch v calls = (Inl e, calls))
              \<and> (\<forall>m. m_as v ''V'' = Inr m \<longrightarrow>
                    DCVoltageControl_setValue m_as ch v calls
                      = (Inr v, calls @ [(''set_volt'', [VSym v_channel, VFloat m])])))))
   \<and> (ch \<in> fst ` set FourRodOvenControl_outputChannels \<longrightarrow>
     (ch = ''Oven current set'' \<longrightarrow>
        (\<forall>e. m_as v ''A'' = Inl e \<longrightarrow>
           FourRodOvenControl_setValue m_as ch v calls = (Inl e, calls))
      \<and> (\<forall>m. m_as v ''A'' = Inr m \<longrightarrow>
           FourRodOvenControl_setValue m_as ch v calls
             = (Inr v, calls @ [(''set_current'', [VFloat m])])))
     \<and> (ch = ''Oven voltage set'' \<longrightarrow>
        (\<forall>e. m_as v ''V'' = Inl e \<longrightarrow>
           FourRodOvenControl_setValue m_as ch v calls = (Inl e, calls))
      \<and> (\<forall>m. m_as v ''V'' = Inr m \<longrightarrow>
           FourRodOvenControl_setValue m_as ch v calls
             = (Inr v, calls @ [(''set_voltage'', [VFloat m])])))
     \<and> (ch \<noteq> ''Oven current set'' \<and> ch \<noteq> ''Oven voltage set'' \<longrightarrow>
          FourRodOvenControl_setValue m_as ch v calls = (Inr v, calls)))
   \<and> (ch \<in> fst ` set RFController_outputChannels \<longrightarrow>
     (\<exists>rf_channel parameter_name.
         RFController_outputLookup ch = Some (rf_channel, parameter_name)
       \<and> parameter_name \<in> {''frequency'', ''power'', ''output_state''}
       \<and> (map_of RFController_outputChannels ch = Some ''MHz'' \<longrightarrow> parameter_name = ''frequency'')
       \<and> (parameter_name = ''frequency'' \<longrightarrow>
            (\<forall>e. m_as v ''Hz'' = Inl e \<longrightarrow>
               RFController_setValue m_as ch v calls = (Inl e, calls))
          \<and> (\<forall>m e. m_as v ''Hz'' = Inr m \<and> py_int m = Inl e \<longrightarrow>
               RFController_setValue m_as ch v calls = (Inl e, calls))
          \<and> (\<forall>m k. m_as v ''Hz'' = Inr m \<and> py_int m = Inr k \<longrightarrow>
               RFController_setValue m_as ch v calls
                 = (Inr v, calls @ [(''set_frequency'', [VStr rf_channel, VInt k])])))
       \<and> (parameter_name = ''power'' \<longrightarrow>
            (\<forall>e. m_as v [] = Inl e \<longrightarrow>
               RFController_setValue m_as ch v calls = (Inl e, calls))
          \<and> (\<forall>m. m_as v [] = Inr m \<longrightarrow>
               RFController_setValue m_as ch v calls
                 = (Inr v, calls @ [(''set_power'', [VStr rf_channel, VFloat m])])))
       \<and> (parameter_name = ''output_state'' \<longrightarrow>
            (\<forall>e. m_as v [] = Inl e \<longrightarrow>
               RFController_setValue m_as ch v calls = (Inl e, calls))
          \<and> (\<forall>m. m_as v [] = Inr m \<longrightarrow>
               RFController_setValue m_as ch v calls
                 = (Inr v, calls @ [(''set_output_state'', [VStr rf_channel, VBool (py_bool m)])])))))
   \<and> (ch \<in> fst ` set SANAControl_outputChannels \<longrightarrow>
     (\<exists>sana_channel. SANAControl_outputLookup ch = Some sana_channel
       \<and> (\<forall>e. m_as v ''V'' = Inl e \<longrightarrow>
             SANAControl_setValue m_as ch v calls = (Inl e, calls))
       \<and> (\<forall>m. m_as v ''V'' = Inr m \<longrightarrow>
             SANAControl_setValue m_as ch v calls
               = (Inr v, calls @ [(''set_channel_voltage'', [VStr sana_channel, VFloat m])]))))
   \<and> (fst (DS345_setValue m_as ch v calls) = Inr q \<longrightarrow> q = v)
   \<and> (fst (LaserFreqPID_setValue m_as str_list getValue ch v (cfg, calls)) = Inr q \<longrightarrow> q = v)
   \<and> (fst (DCVoltageControl_setValue m_as ch v calls) = Inr q \<longrightarrow> q = v)
   \<and> (fst (FourRodOvenControl_setValue m_as ch v calls) = Inr q \<longrightarrow> q = v)
   \<and> (fst (RFController_setValue m_as ch v calls) = Inr q \<longrightarrow> q = v)
   \<and> (fst (SANAControl_setValue m_as ch v calls) = Inr q \<longrightarrow> q = v)"
  by (intro conjI)
     (rule DS345_configured, rule LaserFreqPID_configured, rule DCVoltageControl_configured,
      rule FourRodOvenControl_configured, rule RFController_configured,
      rule SANAControl_configured, rule DS345_returns, rule LaserFreqPID_returns,
      rule DCVoltageControl_returns, rule FourRodOvenControl_returns, rule RFController_returns,
      rule SANAControl_returns)

text \<open>
  C7 as stated fails: the DC controller's \<^verbatim>\<open>setValue\<close> raises ValueError for the
  mode 2 on its configured channel \<^verbatim>\<open>Enable Remote Control\<close> instead of returning the
  quantity; and the DS345 channel \<^verbatim>\<open>Frequency\<close>, configured in kHz, hands the
  vendor the value in Hz (1000 for 1 kHz).
\<close>

theorem setValue_counterexample:
  "''Enable Remote Control'' \<in> fst ` set DCVoltageControl_outputChannels
   \<and> DCVoltageControl_setValue m_as_units ''Enable Remote Control'' (Q 2 []) []
       = (Inl (ValueError ''Not an available mode!!!!!''), [])
   \<and> map_of DS345_outputChannels ''Frequency'' = Some ''kHz''
   \<and> m_as_units (Q 1 ''kHz'') ''kHz'' = Inr (Finite 1)
   \<and> DS345_setValue m_as_units ''Frequency'' (Q 1 ''kHz'') []
       = (Inr (Q 1 ''kHz''), [(''frequency'', [VNum (Finite 1000)])])"
  by (simp add: DCVoltageControl_outputChannels_def DCVoltageControl_setValue_def
        DS345_outputChannels_def DS345_outputLookup_def DS345_setValue_def
        m_as_units_def unit_table_def)

theorem setValue_converts_then_calls_vendor_witness:
  "''Frequency'' \<in> fst ` set DS345_outputChannels
   \<and> m_as_units (Q 1 ''kHz'') ''Hz'' = Inr (Finite 1000)
   \<and> DS345_setValue m_as_units ''Frequency'' (Q 1 ''kHz'') []
       = (Inr (Q 1 ''kHz''), [(''frequency'', [VNum (Finite 1000)])])
   \<and> ''Enable Remote Control'' \<in> fst ` set DCVoltageControl_outputChannels
   \<and> m_as_units (Q 1 []) [] = Inr (Finite 1) \<and> py_int (Finite 1) = Inr 1
   \<and> (1::int) \<in> {0, 1, 255}
   \<and> DCVoltageControl_setValue m_as_units ''Enable Remote Control'' (Q 1 []) []
       = (Inr (Q 1 []), [(''set_mode_all'', [VInt 1])])
   \<and> m_as_units (Q 7 []) [] = Inr (Finite 7) \<and> py_int (Finite 7) = Inr 7
   \<and> (7::int) \<notin> {0, 1, 255}
   \<and> DCVoltageControl_setValue m_as_units ''Enable Remote Control'' (Q 7 []) []
       = (Inl (ValueError ''Not an available mode!!!!!''), [])
   \<and> DCVoltageControl_setValue (\<lambda>q u. Inr NaN) ''Enable Remote Control'' (Q 1 []) []
       = (Inl (ValueError ''cannot convert float NaN to integer''), [])
   \<and> ''Rod_1_Voltage'' \<in> fst ` set DCVoltageControl_outputChannels
   \<and> DCVoltageControl_setValue m_as_units ''Rod_1_Voltage'' (Q 500 ''mV'') []
       = (Inr (Q 500 ''mV''), [(''set_volt'', [VSym ''CHANNEL_R1'', VFloat (Finite (1 / 2))])])
   \<and> DCVoltageControl_setValue m_as_units ''Rod_1_Voltage'' (Q 1 ''A'') []
       = (Inl (OtherException ''DimensionalityError'' []), [])
   \<and> ''Oven current set'' \<in> fst ` set FourRodOvenControl_outputChannels
   \<and> m_as_units (Q 2 ''A'') ''A'' = Inr (Finite 2)
   \<and> FourRodOvenControl_setValue m_as_units ''Oven current set'' (Q 2 ''A'') []
       = (Inr (Q 2 ''A''), [(''set_current'', [VFloat (Finite 2)])])
   \<and> ''Oven status (0=CV, 1=CC)'' \<in> fst ` set FourRodOvenControl_outputChannels
   \<and> FourRodOvenControl_setValue m_as_units ''Oven status (0=CV, 1=CC)'' (Q 1 []) []
       = (Inr (Q 1 []), [])
   \<and> ''frequency_cooling_eom'' \<in> fst ` set RFController_outputChannels
   \<and> map_of RFController_outputChannels ''frequency_cooling_eom'' = Some ''MHz''
   \<and> m_as_units (Q 200 ''MHz'') ''Hz'' = Inr (Finite 200000000)
   \<and> py_int (Finite 200000000) = Inr 200000000
   \<and> RFController_setValue m_as_units ''frequency_cooling_eom'' (Q 200 ''MHz'') []
       = (Inr (Q 200 ''MHz''),
          [(''set_frequency'', [VStr ''four_rod_cooling_eom'', VInt 200000000])])
   \<and> ''dmd_FP_mirror_vertical'' \<in> fst ` set SANAControl_outputChannels
   \<and> m_as_units (Q 500 ''mV'') ''V'' = Inr (Finite (1 / 2))
   \<and> SANAControl_setValue m_as_units ''dmd_FP_mirror_vertical'' (Q 500 ''mV'') []
       = (Inr (Q 500 ''mV''),
          [(''set_channel_voltage'', [VStr ''2B'', VFloat (Finite (1 / 2))])])
   \<and> ''EnableLock'' \<in> fst ` set LaserFreqPID_outputChannels
   \<and> LaserFreqPID_setValue m_as_units str_list0 (\<lambda>cfg. (Inr (Q 1 []), cfg)) ''EnableLock''
         (Q 1 []) (Map.empty, [])
       = (Inr (Q 1 []), [''enable_lock'' \<mapsto> ''True''],
          [(''update_config'', [VCfg [(''freq_setpoint'', None), (''enable_lock'', Some ''True'')]]),
           (''set_config'', []), (''get_config'', [])])"
proof -
  have ds: "''Frequency'' \<in> fst ` set DS345_outputChannels"
    by (simp add: DS345_outputChannels_def)
  have ds_l: "DS345_outputLookup ''Frequency'' = Some (''frequency'', ''Hz'')"
    by (simp add: DS345_outputLookup_def)
  have ds_c: "m_as_units (Q 1 ''kHz'') ''Hz'' = Inr (Finite 1000)"
    by (simp add: m_as_units_def unit_table_def)
  have dc: "''Enable Remote Control'' \<in> fst ` set DCVoltageControl_outputChannels"
    by (simp add: DCVoltageControl_outputChannels_def)
  have dc_c: "m_as_units (Q 1 []) [] = Inr (Finite 1)"
    by (simp add: m_as_units_def unit_table_def)
  have dc_m: "py_int (Finite 1) = Inr 1"
    by simp
  have dc_c7: "m_as_units (Q 7 []) [] = Inr (Finite 7)"
    by (simp add: m_as_units_def unit_table_def)
  have dc_m7: "py_int (Finite 7) = Inr 7"
    by simp
  have dc_nan: "py_int NaN = Inl (ValueError ''cannot convert float NaN to integer'')"
    by simp
  have rod: "''Rod_1_Voltage'' \<in> fst ` set DCVoltageControl_outputChannels"
    by (simp add: DCVoltageControl_outputChannels_def)
  have rod_l: "DCVoltageControl_outputLookup ''Rod_1_Voltage'' = Some ''CHANNEL_R1''"
    by (simp add: DCVoltageControl_outputLookup_def)
  have rod_c: "m_as_units (Q 500 ''mV'') ''V'' = Inr (Finite (1 / 2))"
    by (simp add: m_as_units_def unit_table_def)
  have rod_e: "m_as_units (Q 1 ''A'') ''V'' = Inl (OtherException ''DimensionalityError'' [])"
    by (simp add: m_as_units_def unit_table_def)
  have ov: "''Oven current set'' \<in> fst ` set FourRodOvenControl_outputChannels"
    by (simp add: FourRodOvenControl_outputChannels_def)
  have ov_c: "m_as_units (Q 2 ''A'') ''A'' = Inr (Finite 2)"
    by (simp add: m_as_units_def unit_table_def)
  have os: "''Oven status (0=CV, 1=CC)'' \<in> fst ` set FourRodOvenControl_outputChannels"
    by (simp add: FourRodOvenControl_outputChannels_def)
  have rf: "''frequency_cooling_eom'' \<in> fst ` set RFController_outputChannels"
    by (simp add: RFController_outputChannels_def)
  have rf_u: "map_of RFController_outputChannels ''frequency_cooling_eom'' = Some ''MHz''"
    by (simp add: RFController_outputChannels_def)
  have rf_l: "RFController_outputLookup ''frequency_cooling_eom''
                = Some (''four_rod_cooling_eom'', ''frequency'')"
    by (simp add: RFController_outputLookup_def)
  have rf_c: "m_as_units (Q 200 ''MHz'') ''Hz'' = Inr (Finite 200000000)"
    by (simp add: m_as_units_def unit_table_def)
  have rf_i: "py_int (Finite 200000000) = Inr 200000000"
    by simp
  have sa: "''dmd_FP_mirror_vertical'' \<in> fst ` set SANAControl_outputChannels"
    by (simp add: SANAControl_outputChannels_def)
  have sa_l: "SANAControl_outputLookup ''dmd_FP_mirror_vertical'' = Some ''2B''"
    by (simp add: SANAControl_outputLookup_def)
  have la: "''EnableLock'' \<in> fst ` set LaserFreqPID_outputChannels"
    by (simp add: LaserFreqPID_outputChannels_def)
  have la_l: "LaserFreqPID_outputLookup ''EnableLock'' = Some (''enable_lock'', [])"
    by (simp add: LaserFreqPID_outputLookup_def)
  have la_s: "cfg_section [''enable_lock'' \<mapsto> ''True'']
                = VCfg [(''freq_setpoint'', None), (''enable_lock'', Some ''True'')]"
    by (simp add: cfg_section_def)
  note main = setValue_converts_then_calls_vendor
  have 1: "DS345_setValue m_as_units ''Frequency'' (Q 1 ''kHz'') []
       = (Inr (Q 1 ''kHz''), [(''frequency'', [VNum (Finite 1000)])])"
    using main [where ch = "''Frequency''" and m_as = m_as_units and v = "Q 1 ''kHz''"
        and calls = "[]"] ds ds_l ds_c
    by simp
  have 2: "DCVoltageControl_setValue m_as_units ''Enable Remote Control'' (Q 1 []) []
       = (Inr (Q 1 []), [(''set_mode_all'', [VInt 1])])"
    using main [where ch = "''Enable Remote Control''" and m_as = m_as_units and v = "Q 1 []"
        and calls = "[]"] dc dc_c dc_m
    by simp
  have 3: "DCVoltageControl_setValue m_as_units ''Enable Remote Control'' (Q 7 []) []
       = (Inl (ValueError ''Not an available mode!!!!!''), [])"
    using main [where ch = "''Enable Remote Control''" and m_as = m_as_units and v = "Q 7 []"
        and calls = "[]"] dc dc_c7 dc_m7
    by simp
  have 4: "DCVoltageControl_setValue (\<lambda>q u. Inr NaN) ''Enable Remote Control'' (Q 1 []) []
       = (Inl (ValueError ''cannot convert float NaN to integer''), [])"
    using main [where ch = "''Enable Remote Control''" and m_as = "\<lambda>q u. Inr NaN"
        and v = "Q 1 []" and calls = "[]"] dc dc_nan
    by simp
  have 5: "DCVoltageControl_setValue m_as_units ''Rod_1_Voltage'' (Q 500 ''mV'') []
       = (Inr (Q 500 ''mV''), [(''set_volt'', [VSym ''CHANNEL_R1'', VFloat (Finite (1 / 2))])])"
    using main [where ch = "''Rod_1_Voltage''" and m_as = m_as_units and v = "Q 500 ''mV''"
        and calls = "[]"] rod rod_l rod_c
    by simp
  have 6: "DCVoltageControl_setValue m_as_units ''Rod_1_Voltage'' (Q 1 ''A'') []
       = (Inl (OtherException ''DimensionalityError'' []), [])"
    using main [where ch = "''Rod_1_Voltage''" and m_as = m_as_units and v = "Q 1 ''A''"
        and calls = "[]"] rod rod_l rod_e
    by simp
  have 7: "FourRodOvenControl_setValue m_as_units ''Oven current set'' (Q 2 ''A'') []
       = (Inr (Q 2 ''A''), [(''set_current'', [VFloat (Finite 2)])])"
    using main [where ch = "''Oven current set''" and m_as = m_as_units and v = "Q 2 ''A''"
        and calls = "[]"] ov ov_c
    by simp
  have 8: "FourRodOvenControl_setValue m_as_units ''Oven status (0=CV, 1=CC)'' (Q 1 []) []
       = (Inr (Q 1 []), [])"
    using main [where ch = "''Oven status (0=CV, 1=CC)''" and m_as = m_as_units
        and v = "Q 1 []" and calls = "[]"] os
    by simp
  have 9: "RFController_setValue m_as_units ''frequency_cooling_eom'' (Q 200 ''MHz'') []
       = (Inr (Q 200 ''MHz''),
          [(''set_frequency'', [VStr ''four_rod_cooling_eom'', VInt 200000000])])"
    using main [where ch = "''frequency_cooling_eom''" and m_as = m_as_units
        and v = "Q 200 ''MHz''" and calls = "[]"] rf rf_l rf_c rf_i
    by simp
  have 10: "SANAControl_setValue m_as_units ''dmd_FP_mirror_vertical'' (Q 500 ''mV'') []
       = (Inr (Q 500 ''mV''),
          [(''set_channel_voltage'', [VStr ''2B'', VFloat (Finite (1 / 2))])])"
    using main [where ch = "''dmd_FP_mirror_vertical''" and m_as = m_as_units
        and v = "Q 500 ''mV''" and calls = "[]"] sa sa_l rod_c
    by simp
  have 11: "LaserFreqPID_setValue m_as_units str_list0 (\<lambda>cfg. (Inr (Q 1 []), cfg)) ''EnableLock''
         (Q 1 []) (Map.empty, [])
       = (Inr (Q 1 []), [''enable_lock'' \<mapsto> ''True''],
          [(''update_config'', [VCfg [(''freq_setpoint'', None), (''enable_lock'', Some ''True'')]]),
           (''set_config'', []), (''get_config'', [])])"
    using main [where ch = "''EnableLock''" and m_as = m_as_units and v = "Q 1 []"
        and calls = "[]" and cfg = Map.empty and str_list = str_list0
        and getValue = "\<lambda>cfg. (Inr (Q 1 []), cfg)"] la la_l dc_c la_s
    by (simp add: Let_def)
  show ?thesis
    using ds ds_c 1 dc dc_c dc_m 2 dc_c7 dc_m7 3 4 rod 5 6 ov ov_c 7 os 8 rf rf_u rf_c rf_i 9
      sa rod_c 10 la 11
    by simp
qed

end
